theory Spec2Isabelle
  imports Main "HOL-Library.AList"
begin

section \<open>The streaming gateway of polyaxon (streams/api.py)\<close>

text \<open>
  The four websocket handlers \<open>job_resources\<close>, \<open>experiment_resources\<close>, \<open>job_logs\<close>
  and \<open>experiment_logs\<close> are coroutines that mutate tables hanging off the
  application object and objects shared between sessions. The embedding threads one
  \<open>world\<close> record through every handler: the application tables, a store of the
  shared objects addressed by reference, the monitoring flags kept in Redis, the audit
  trail and the transports of the open connections. Every handler is cut at its
  \<open>await asyncio.sleep\<close>: the part before the loop is a \<open>_setup\<close> function, one
  pass of the loop body is a \<open>_cycle\<close> function.
\<close>

subsection \<open>Constants (lines 28-31)\<close>

definition SOCKET_SLEEP :: int where "SOCKET_SLEEP = 2"
definition MAX_RETRIES :: int where "MAX_RETRIES = 7"
definition RESOURCES_CHECK :: int where "RESOURCES_CHECK = 7"
definition CHECK_DELAY :: int where "CHECK_DELAY = 5"

subsection \<open>Data\<close>

type_synonym conn = nat
type_synonym uuid = string
type_synonym message = string
type_synonym ref = nat

text \<open>The two sanic exceptions the module names; each carries its message.\<close>

datatype sanic_exception =
  is_NotFound: NotFound (exn_message: string)
| is_Forbidden: Forbidden (exn_message: string)

record user =
  user_id :: nat

record request =
  request_user :: user

record project =
  p_name :: string
  p_username :: string

record "experiment" =
  e_uuid :: uuid
  e_unique_name :: string
  e_is_running :: bool
  e_is_done :: bool

record job =
  j_id :: nat
  j_role :: string
  j_uuid :: uuid
  j_is_running :: bool
  j_is_done :: bool

text \<open>
  The outcome of a Django \<open>objects.get\<close>: the row, \<open>DoesNotExist\<close>, or the
  \<open>ValidationError\<close> a malformed identifier gives.
\<close>

datatype 'a lookup = Found 'a | DoesNotExist | ValidationError

text \<open>
  The database and the permission library are not part of the module; the handlers
  only query them. They are taken as parameters: one field for each query the module
  makes.
\<close>

record db =
  project_get :: "string \<Rightarrow> string \<Rightarrow> project option"
  experiment_get :: "project \<Rightarrow> string \<Rightarrow> experiment lookup"
  job_get :: "experiment \<Rightarrow> string \<Rightarrow> job lookup"
  experiment_jobs :: "experiment \<Rightarrow> job list"
  job_refresh :: "job \<Rightarrow> job"
  experiment_refresh :: "experiment \<Rightarrow> experiment"
  has_project_permissions :: "user \<Rightarrow> project \<Rightarrow> string \<Rightarrow> bool"

datatype event_type =
  EXPERIMENT_LOGS_VIEWED
| EXPERIMENT_RESOURCES_VIEWED
| EXPERIMENT_JOB_LOGS_VIEWED
| EXPERIMENT_JOB_RESOURCES_VIEWED

record audit_event =
  audit_type :: event_type
  audit_instance :: uuid
  audit_actor :: nat

text \<open>
  Modelled from the spec: the class \<open>Consumer\<close> (streams/consumers.py) is missing from
  the sources. After sections 4.1 and 4.2 it owns the membership of its group
  (\<open>consumer_ws\<close>, the attribute \<open>ws\<close> of the source), a broker subscription that
  \<open>run\<close> opens and \<open>stop\<close> releases (\<open>consumer_running\<close>), and the messages read
  from the broker and not yet drained (\<open>consumer_buffer\<close>). The set of connections is
  kept as a list; its order is the order of iteration.
\<close>

record consumer =
  consumer_routing_key :: string
  consumer_queue :: string
  consumer_ws :: "conn list"
  consumer_running :: bool
  consumer_buffer :: "message list"

text \<open>
  The world. The four tables of the application object are dictionaries, kept as
  association lists because \<open>notify_server_stopped\<close> iterates over their keys; the
  fifth, \<open>experiment_resources_ws_manger\<close>, is the attribute that line 399 assigns.
  Socket managers and consumers are shared objects: the tables and the sessions hold
  references into \<open>socket_managers\<close> and \<open>consumers\<close>, and \<open>next_ref\<close> is the next
  unused reference. A socket manager is its attribute \<open>ws\<close>.

  The settings \<open>RoutingKeys.LOGS_SIDECARS\<close> and \<open>CeleryQueues.STREAM_LOGS_SIDECARS\<close>
  are parameters, as the database is.

  Modelled from the spec: the class \<open>RedisToStream\<close> (libs/redis_db.py) is missing
  from the sources. After section 6 it marks a key as monitored, unmarks it, and
  fetches the latest snapshot of a job or of a list of jobs, which may be empty: the
  four sets \<open>monitored_\<close> hold the marked keys, \<open>latest_job_resources\<close> and
  \<open>latest_experiment_resources\<close> are the content of the cache (\<open>None\<close> for a value
  that Python takes as false), and \<open>experiment_fetches\<close> lists the arguments of the
  calls of \<open>get_latest_experiment_resources\<close>.

  Modelled from the spec: the module \<open>auditor\<close> is missing from the sources. After
  section 6, \<open>record\<close> files the type of the event, its subject and the actor;
  \<open>audit\<close> lists what was recorded.

  The transports are those of the \<open>websockets\<close> library: a send on a connection
  in \<open>send_closed\<close> raises \<open>ConnectionClosed\<close>, \<open>connection_lost\<close> holds the
  connections whose \<open>_connection_lost\<close> is set, and \<open>sent\<close> lists what was
  delivered, in order.
\<close>

record world =
  database :: db
  routing_keys_LOGS_SIDECARS :: string
  celery_queues_STREAM_LOGS_SIDECARS :: string
  job_resources_ws_mangers :: "(uuid \<times> ref) list"
  experiment_resources_ws_mangers :: "(uuid \<times> ref) list"
  job_logs_consumers :: "(uuid \<times> ref) list"
  experiment_logs_consumers :: "(uuid \<times> ref) list"
  experiment_resources_ws_manger :: "(uuid \<times> ref) list"
  socket_managers :: "ref \<Rightarrow> conn list"
  consumers :: "ref \<Rightarrow> consumer"
  next_ref :: ref
  monitored_job_resources :: "uuid set"
  monitored_experiment_resources :: "uuid set"
  monitored_job_logs :: "uuid set"
  monitored_experiment_logs :: "uuid set"
  latest_job_resources :: "uuid \<Rightarrow> string \<Rightarrow> message option"
  latest_experiment_resources :: "(uuid \<times> string) list \<Rightarrow> message option"
  experiment_fetches :: "(uuid \<times> string) list list"
  audit :: "audit_event list"
  send_closed :: "conn set"
  connection_lost :: "conn set"
  sent :: "(conn \<times> message) list"

subsection \<open>Sockets and groups\<close>

text \<open>
  \<open>await ws.send(m)\<close>: raises \<open>ConnectionClosed\<close> (the result \<open>False\<close>) on a closed
  transport, and otherwise hands the message to the viewer; \<open>sent\<close> lists every
  delivery in order.
\<close>

definition ws_send :: "conn \<Rightarrow> message \<Rightarrow> world \<Rightarrow> bool \<times> world" where
  "ws_send c m w =
     (if c \<in> send_closed w then (False, w)
      else (True, w\<lparr>sent := sent w @ [(c, m)]\<rparr>))"

text \<open>
  Modelled from the spec: the class \<open>SocketManager\<close> (streams/socket_manager.py) is
  missing from the sources. After section 4.1, \<open>add\<close> inserts a connection and is
  idempotent, \<open>remove\<close> deletes zero or more connections and accepts absent ones.
\<close>

definition add_socket :: "conn \<Rightarrow> conn list \<Rightarrow> conn list" where
  "add_socket c cs = (if c \<in> set cs then cs else cs @ [c])"

text \<open>
  Modelled from the spec: \<open>SocketManager.remove_sockets\<close>, missing from the sources;
  section 4.1 takes a set of connections, and the resource handlers pass one
  connection, here the set of it.
\<close>

definition remove_sockets :: "conn set \<Rightarrow> conn list \<Rightarrow> conn list" where
  "remove_sockets d cs = filter (\<lambda>c. c \<notin> d) cs"

definition set_consumer_ws :: "ref \<Rightarrow> conn list \<Rightarrow> world \<Rightarrow> world" where
  "set_consumer_ws r cs w =
     w\<lparr>consumers := (consumers w)(r := (consumers w r)\<lparr>consumer_ws := cs\<rparr>)\<rparr>"

definition set_manager_ws :: "ref \<Rightarrow> conn list \<Rightarrow> world \<Rightarrow> world" where
  "set_manager_ws r cs w = w\<lparr>socket_managers := (socket_managers w)(r := cs)\<rparr>"

subsection \<open>The log fan-out (lines 241-249 and 313-321)\<close>

text \<open>
  The inner loop \<open>for _ws in consumer.ws\<close>: one send per member, in the order of
  iteration; a \<open>ConnectionClosed\<close> adds the member to \<open>disconnected_ws\<close> and the loop
  goes on.
\<close>

fun fan_out :: "message \<Rightarrow> conn list \<Rightarrow> conn set \<Rightarrow> world \<Rightarrow> conn set \<times> world" where
  "fan_out m [] disconnected_ws w = (disconnected_ws, w)"
| "fan_out m (c # cs) disconnected_ws w =
     (case ws_send c m w of
        (True, w') \<Rightarrow> fan_out m cs disconnected_ws w'
      | (False, w') \<Rightarrow> fan_out m cs (insert c disconnected_ws) w')"

text \<open>
  The body of \<open>for message in consumer.get_messages()\<close> after the counter is reset:
  the pass over the membership, then \<open>consumer.remove_sockets(disconnected_ws)\<close>.
\<close>

definition broadcast :: "ref \<Rightarrow> message \<Rightarrow> world \<Rightarrow> world" where
  "broadcast r m w =
     (case fan_out m (consumer_ws (consumers w r)) {} w of
        (disconnected_ws, w') \<Rightarrow>
          set_consumer_ws r (remove_sockets disconnected_ws (consumer_ws (consumers w' r))) w')"

text \<open>
  Modelled from the spec: \<open>Consumer.get_messages\<close>, missing from the sources. After
  section 4.2 it is a read of all the messages now available, which cannot be read
  again: the buffered messages, which leave the buffer.
\<close>

definition get_messages :: "ref \<Rightarrow> world \<Rightarrow> message list \<times> world" where
  "get_messages r w =
     (consumer_buffer (consumers w r),
      w\<lparr>consumers := (consumers w)(r := (consumers w r)\<lparr>consumer_buffer := []\<rparr>)\<rparr>)"

text \<open>
  The loop over the drained messages; the counter \<open>num_message_retries\<close> is set to
  zero at every message.
\<close>

fun drain :: "ref \<Rightarrow> message list \<Rightarrow> int \<Rightarrow> world \<Rightarrow> int \<times> world" where
  "drain r [] num_message_retries w = (num_message_retries, w)"
| "drain r (m # ms) num_message_retries w = drain r ms 0 (broadcast r m w)"

text \<open>The members of the group of consumer \<open>r\<close> whose transport takes a send.\<close>

definition open_members :: "ref \<Rightarrow> world \<Rightarrow> conn list" where
  "open_members r w = filter (\<lambda>c. c \<notin> send_closed w) (consumer_ws (consumers w r))"

subsection \<open>Resolving the target (lines 36-72)\<close>

definition get_project :: "db \<Rightarrow> string \<Rightarrow> string \<Rightarrow> sanic_exception + project" where
  "get_project d username project_name =
     (case project_get d project_name username of
        Some project \<Rightarrow> Inr project
      | None \<Rightarrow> Inl (NotFound ''Project was not found''))"

definition get_experiment :: "db \<Rightarrow> project \<Rightarrow> string \<Rightarrow> sanic_exception + experiment" where
  "get_experiment d project experiment_id =
     (case experiment_get d project experiment_id of
        Found e \<Rightarrow> Inr e
      | DoesNotExist \<Rightarrow> Inl (NotFound ''Experiment was not found'')
      | ValidationError \<Rightarrow> Inl (NotFound ''Experiment was not found''))"

definition get_job :: "db \<Rightarrow> experiment \<Rightarrow> string \<Rightarrow> sanic_exception + job" where
  "get_job d e job_id =
     (case job_get d e job_id of
        DoesNotExist \<Rightarrow> Inl (NotFound ''Experiment was not found'')
      | ValidationError \<Rightarrow> Inl (NotFound ''Experiment was not found'')
      | Found j \<Rightarrow>
          if \<not> j_is_running j then Inl (NotFound ''Job was not running'')
          else Inr j)"

definition get_running_experiment ::
  "db \<Rightarrow> project \<Rightarrow> string \<Rightarrow> sanic_exception + experiment" where
  "get_running_experiment d project experiment_id =
     (case get_experiment d project experiment_id of
        Inl exn \<Rightarrow> Inl exn
      | Inr e \<Rightarrow>
          if \<not> e_is_running e then Inl (NotFound ''Experiment was not running'')
          else Inr e)"

text \<open>
  Lines 78-79, 141-142, 209-210 and 284-285: the test of the permission builds the
  exception \<open>Forbidden\<close> and drops it, since the statement has no \<open>raise\<close>. The value
  of the statement is what \<open>forbidden_unraised\<close> returns; no handler reads it.
\<close>

definition forbidden_unraised :: "db \<Rightarrow> user \<Rightarrow> project \<Rightarrow> sanic_exception option" where
  "forbidden_unraised d u project =
     (if \<not> has_project_permissions d u project ''GET''
      then Some (Forbidden ''You don't have access to this project'')
      else None)"

subsection \<open>Collaborators of the setup\<close>

fun str_nat :: "nat \<Rightarrow> string" where
  "str_nat n =
     (if n < 10 then [''0123456789'' ! n]
      else str_nat (n div 10) @ [''0123456789'' ! (n mod 10)])"

declare str_nat.simps [simp del]

text \<open>\<open>'{}.{}'.format(role, id)\<close>\<close>

definition format_name :: "string \<Rightarrow> nat \<Rightarrow> string" where
  "format_name role i = role @ ''.'' @ str_nat i"

text \<open>
  Modelled from the spec: \<open>auditor.record\<close>, missing from the sources; the subject
  is filed by its uuid.
\<close>

definition auditor_record :: "event_type \<Rightarrow> uuid \<Rightarrow> nat \<Rightarrow> world \<Rightarrow> world" where
  "auditor_record t instance actor w =
     w\<lparr>audit := audit w @ [\<lparr>audit_type = t, audit_instance = instance, audit_actor = actor\<rparr>]\<rparr>"

text \<open>
  Modelled from the spec: the constructor \<open>SocketManager()\<close>, missing from the
  sources: a new object with no connection.
\<close>

definition new_socket_manager :: "world \<Rightarrow> ref \<times> world" where
  "new_socket_manager w =
     (next_ref w,
      w\<lparr>socket_managers := (socket_managers w)(next_ref w := []),
        next_ref := Suc (next_ref w)\<rparr>)"

text \<open>
  Modelled from the spec: the constructor \<open>Consumer(routing_key=..., queue=...)\<close>,
  missing from the sources: a new object with no connection, not yet running.
\<close>

definition new_consumer :: "string \<Rightarrow> string \<Rightarrow> world \<Rightarrow> ref \<times> world" where
  "new_consumer routing_key queue w =
     (next_ref w,
      w\<lparr>consumers := (consumers w)(next_ref w :=
           \<lparr>consumer_routing_key = routing_key, consumer_queue = queue, consumer_ws = [],
            consumer_running = False, consumer_buffer = []\<rparr>),
        next_ref := Suc (next_ref w)\<rparr>)"

text \<open>
  Modelled from the spec: \<open>Consumer.run\<close> and \<open>Consumer.stop\<close>, missing from the
  sources. After section 4.2, \<open>start\<close> opens the subscription and \<open>stop\<close> releases
  it.
\<close>

definition consumer_run :: "ref \<Rightarrow> world \<Rightarrow> world" where
  "consumer_run r w =
     w\<lparr>consumers := (consumers w)(r := (consumers w r)\<lparr>consumer_running := True\<rparr>)\<rparr>"

definition consumer_stop :: "ref \<Rightarrow> world \<Rightarrow> world" where
  "consumer_stop r w =
     w\<lparr>consumers := (consumers w)(r := (consumers w r)\<lparr>consumer_running := False\<rparr>)\<rparr>"

text \<open>What a handler does at its \<open>await asyncio.sleep\<close>, or that it has returned.\<close>

datatype 's outcome = Return world | Sleep 's world

fun outcome_world :: "'s outcome \<Rightarrow> world" where
  "outcome_world (Return w) = w"
| "outcome_world (Sleep l w) = w"

fun outcome_session :: "'s outcome \<Rightarrow> 's option" where
  "outcome_session (Return w) = None"
| "outcome_session (Sleep l w) = Some l"

subsection \<open>\<open>job_resources\<close> (lines 75-135)\<close>

record job_resources_session =
  jr_ws :: conn
  jr_job :: job
  jr_job_uuid :: uuid
  jr_job_name :: string
  jr_ws_manager :: ref
  jr_should_check :: int

definition job_resources_setup ::
  "request \<Rightarrow> conn \<Rightarrow> string \<Rightarrow> string \<Rightarrow> string \<Rightarrow> string \<Rightarrow> world
     \<Rightarrow> (sanic_exception + job_resources_session) \<times> world" where
  "job_resources_setup request ws username project_name experiment_id job_id w =
     (case get_project (database w) username project_name of
        Inl exn \<Rightarrow> (Inl exn, w)
      | Inr project \<Rightarrow>
     (let unraised = forbidden_unraised (database w) (request_user request) project in
      case get_running_experiment (database w) project experiment_id of
        Inl exn \<Rightarrow> (Inl exn, w)
      | Inr e \<Rightarrow>
     (case get_job (database w) e job_id of
        Inl exn \<Rightarrow> (Inl exn, w)
      | Inr j \<Rightarrow>
     (let job_uuid = j_uuid j;
          job_name = format_name (j_role j) (j_id j);
          w1 = auditor_record EXPERIMENT_JOB_RESOURCES_VIEWED job_uuid
                 (user_id (request_user request)) w;
          w2 = (if job_uuid \<notin> monitored_job_resources w1
                then w1\<lparr>monitored_job_resources := insert job_uuid (monitored_job_resources w1)\<rparr>
                else w1);
          (ws_manager, w3) =
            (case map_of (job_resources_ws_mangers w2) job_uuid of
               Some r \<Rightarrow> (r, w2)
             | None \<Rightarrow>
                 (case new_socket_manager w2 of
                    (r, w') \<Rightarrow>
                      (r, w'\<lparr>job_resources_ws_mangers :=
                              AList.update job_uuid r (job_resources_ws_mangers w')\<rparr>)));
          w4 = set_manager_ws ws_manager (add_socket ws (socket_managers w3 ws_manager)) w3
      in (Inr \<lparr>jr_ws = ws, jr_job = j, jr_job_uuid = job_uuid, jr_job_name = job_name,
               jr_ws_manager = ws_manager, jr_should_check = 0\<rparr>, w4)))))"

text \<open>The closure \<open>handle_job_disconnected_ws\<close> (lines 98-105).\<close>

definition handle_job_disconnected_ws :: "job_resources_session \<Rightarrow> conn \<Rightarrow> world \<Rightarrow> world" where
  "handle_job_disconnected_ws l ws w =
     (let w1 = set_manager_ws (jr_ws_manager l)
                 (remove_sockets {ws} (socket_managers w (jr_ws_manager l))) w
      in if socket_managers w1 (jr_ws_manager l) = []
         then w1\<lparr>monitored_job_resources := monitored_job_resources w1 - {jr_job_uuid l},
                 job_resources_ws_mangers :=
                   AList.delete (jr_job_uuid l) (job_resources_ws_mangers w1)\<rparr>
         else w1)"

text \<open>Lines 131-135: the test of \<open>ws._connection_lost\<close>, then the sleep.\<close>

definition job_resources_lost :: "job_resources_session \<Rightarrow> world \<Rightarrow> job_resources_session outcome" where
  "job_resources_lost l w =
     (if jr_ws l \<in> connection_lost w
      then Return (handle_job_disconnected_ws l (jr_ws l) w)
      else Sleep l w)"

text \<open>Lines 124-129: the snapshot, when there is one, goes to \<open>ws\<close>.\<close>

definition job_resources_send ::
  "job_resources_session \<Rightarrow> message option \<Rightarrow> world \<Rightarrow> job_resources_session outcome" where
  "job_resources_send l resources w =
     (case resources of
        None \<Rightarrow> job_resources_lost l w
      | Some snapshot \<Rightarrow>
          (case ws_send (jr_ws l) snapshot w of
             (False, w') \<Rightarrow> Return (handle_job_disconnected_ws l (jr_ws l) w')
           | (True, w') \<Rightarrow> job_resources_lost l w'))"

text \<open>One pass of the loop of lines 109-135.\<close>

definition job_resources_cycle ::
  "job_resources_session \<Rightarrow> world \<Rightarrow> job_resources_session outcome" where
  "job_resources_cycle l w =
     (let resources = latest_job_resources w (jr_job_uuid l) (jr_job_name l);
          should_check = jr_should_check l + 1
      in if should_check > RESOURCES_CHECK
         then (let j = job_refresh (database w) (jr_job l)
               in if j_is_done j
                  then Return (handle_job_disconnected_ws l (jr_ws l)
                                 (set_manager_ws (jr_ws_manager l) [] w))
                  else job_resources_send
                         (l\<lparr>jr_job := j, jr_should_check := should_check - CHECK_DELAY\<rparr>)
                         resources w)
         else job_resources_send (l\<lparr>jr_should_check := should_check\<rparr>) resources w)"

subsection \<open>\<open>experiment_resources\<close> (lines 138-203)\<close>

record experiment_resources_session =
  er_ws :: conn
  er_experiment :: "experiment"
  er_experiment_uuid :: uuid
  er_ws_manager :: ref
  er_jobs :: "(uuid \<times> string) list"
  er_should_check :: int

text \<open>
  Lines 168-172: each row of \<open>experiment.jobs.values('uuid', 'role', 'id')\<close> becomes
  the pair of its \<open>uuid\<close> and its \<open>name\<close>.
\<close>

definition resolve_jobs :: "db \<Rightarrow> experiment \<Rightarrow> (uuid \<times> string) list" where
  "resolve_jobs d e = map (\<lambda>j. (j_uuid j, format_name (j_role j) (j_id j))) (experiment_jobs d e)"

definition experiment_resources_setup ::
  "request \<Rightarrow> conn \<Rightarrow> string \<Rightarrow> string \<Rightarrow> string \<Rightarrow> world
     \<Rightarrow> (sanic_exception + experiment_resources_session) \<times> world" where
  "experiment_resources_setup request ws username project_name experiment_id w =
     (case get_project (database w) username project_name of
        Inl exn \<Rightarrow> (Inl exn, w)
      | Inr project \<Rightarrow>
     (let unraised = forbidden_unraised (database w) (request_user request) project in
      case get_running_experiment (database w) project experiment_id of
        Inl exn \<Rightarrow> (Inl exn, w)
      | Inr e \<Rightarrow>
     (let experiment_uuid = e_uuid e;
          w1 = auditor_record EXPERIMENT_RESOURCES_VIEWED experiment_uuid
                 (user_id (request_user request)) w;
          w2 = (if experiment_uuid \<notin> monitored_experiment_resources w1
                then w1\<lparr>monitored_experiment_resources :=
                          insert experiment_uuid (monitored_experiment_resources w1)\<rparr>
                else w1);
          (ws_manager, w3) =
            (case map_of (experiment_resources_ws_mangers w2) experiment_uuid of
               Some r \<Rightarrow> (r, w2)
             | None \<Rightarrow>
                 (case new_socket_manager w2 of
                    (r, w') \<Rightarrow>
                      (r, w'\<lparr>experiment_resources_ws_mangers :=
                              AList.update experiment_uuid r (experiment_resources_ws_mangers w')\<rparr>)));
          jobs = resolve_jobs (database w3) e;
          w4 = set_manager_ws ws_manager (add_socket ws (socket_managers w3 ws_manager)) w3
      in (Inr \<lparr>er_ws = ws, er_experiment = e, er_experiment_uuid = experiment_uuid,
               er_ws_manager = ws_manager, er_jobs = jobs, er_should_check = 0\<rparr>, w4))))"

text \<open>The closure \<open>handle_experiment_disconnected_ws\<close> (lines 159-166).\<close>

definition handle_experiment_disconnected_ws ::
  "experiment_resources_session \<Rightarrow> conn \<Rightarrow> world \<Rightarrow> world" where
  "handle_experiment_disconnected_ws l ws w =
     (let w1 = set_manager_ws (er_ws_manager l)
                 (remove_sockets {ws} (socket_managers w (er_ws_manager l))) w
      in if socket_managers w1 (er_ws_manager l) = []
         then w1\<lparr>monitored_experiment_resources :=
                   monitored_experiment_resources w1 - {er_experiment_uuid l},
                 experiment_resources_ws_mangers :=
                   AList.delete (er_experiment_uuid l) (experiment_resources_ws_mangers w1)\<rparr>
         else w1)"

definition experiment_resources_lost ::
  "experiment_resources_session \<Rightarrow> world \<Rightarrow> experiment_resources_session outcome" where
  "experiment_resources_lost l w =
     (if er_ws l \<in> connection_lost w
      then Return (handle_experiment_disconnected_ws l (er_ws l) w)
      else Sleep l w)"

definition experiment_resources_send ::
  "experiment_resources_session \<Rightarrow> message option \<Rightarrow> world
     \<Rightarrow> experiment_resources_session outcome" where
  "experiment_resources_send l resources w =
     (case resources of
        None \<Rightarrow> experiment_resources_lost l w
      | Some snapshot \<Rightarrow>
          (case ws_send (er_ws l) snapshot w of
             (False, w') \<Rightarrow> Return (handle_experiment_disconnected_ws l (er_ws l) w')
           | (True, w') \<Rightarrow> experiment_resources_lost l w'))"

text \<open>
  \<open>RedisToStream.get_latest_experiment_resources(jobs)\<close>: the answer of the cache;
  \<open>experiment_fetches\<close> keeps the argument of every call.
\<close>

definition get_latest_experiment_resources ::
  "(uuid \<times> string) list \<Rightarrow> world \<Rightarrow> message option \<times> world" where
  "get_latest_experiment_resources jobs w =
     (latest_experiment_resources w jobs,
      w\<lparr>experiment_fetches := experiment_fetches w @ [jobs]\<rparr>)"

text \<open>One pass of the loop of lines 175-203.\<close>

definition experiment_resources_cycle ::
  "experiment_resources_session \<Rightarrow> world \<Rightarrow> experiment_resources_session outcome" where
  "experiment_resources_cycle l w0 =
     (case get_latest_experiment_resources (er_jobs l) w0 of
        (resources, w) \<Rightarrow>
     (let should_check = er_should_check l + 1
      in if should_check > RESOURCES_CHECK
         then (let e = experiment_refresh (database w) (er_experiment l)
               in if e_is_done e
                  then Return (handle_experiment_disconnected_ws l (er_ws l)
                                 (set_manager_ws (er_ws_manager l) [] w))
                  else experiment_resources_send
                         (l\<lparr>er_experiment := e, er_should_check := should_check - CHECK_DELAY\<rparr>)
                         resources w)
         else experiment_resources_send (l\<lparr>er_should_check := should_check\<rparr>) resources w))"

subsection \<open>\<open>job_logs\<close> (lines 206-278)\<close>

record job_logs_session =
  jl_ws :: conn
  jl_job :: job
  jl_job_uuid :: uuid
  jl_consumer :: ref
  jl_should_quite :: bool
  jl_num_message_retries :: int

definition job_logs_setup ::
  "request \<Rightarrow> conn \<Rightarrow> string \<Rightarrow> string \<Rightarrow> string \<Rightarrow> string \<Rightarrow> world
     \<Rightarrow> (sanic_exception + job_logs_session) \<times> world" where
  "job_logs_setup request ws username project_name experiment_id job_id w =
     (case get_project (database w) username project_name of
        Inl exn \<Rightarrow> (Inl exn, w)
      | Inr project \<Rightarrow>
     (let unraised = forbidden_unraised (database w) (request_user request) project in
      case get_running_experiment (database w) project experiment_id of
        Inl exn \<Rightarrow> (Inl exn, w)
      | Inr e \<Rightarrow>
     (case get_job (database w) e job_id of
        Inl exn \<Rightarrow> (Inl exn, w)
      | Inr j \<Rightarrow>
     (let job_uuid = j_uuid j;
          w1 = auditor_record EXPERIMENT_JOB_LOGS_VIEWED job_uuid
                 (user_id (request_user request)) w;
          w2 = (if job_uuid \<notin> monitored_job_logs w1
                then w1\<lparr>monitored_job_logs := insert job_uuid (monitored_job_logs w1)\<rparr>
                else w1);
          (consumer, w3) =
            (case map_of (job_logs_consumers w2) job_uuid of
               Some r \<Rightarrow> (r, w2)
             | None \<Rightarrow>
                 (case new_consumer
                         (routing_keys_LOGS_SIDECARS w2 @ ''.'' @ e_uuid e @ ''.'' @ job_uuid)
                         (celery_queues_STREAM_LOGS_SIDECARS w2 @ ''.'' @ job_uuid) w2 of
                    (r, w') \<Rightarrow>
                      (r, consumer_run r
                            (w'\<lparr>job_logs_consumers :=
                                  AList.update job_uuid r (job_logs_consumers w')\<rparr>))));
          w4 = set_consumer_ws consumer (add_socket ws (consumer_ws (consumers w3 consumer))) w3
      in (Inr \<lparr>jl_ws = ws, jl_job = j, jl_job_uuid = job_uuid, jl_consumer = consumer,
               jl_should_quite = False, jl_num_message_retries = 0\<rparr>, w4)))))"

text \<open>Lines 240-249: the counter goes up by one, then the drain.\<close>

definition job_logs_drain :: "job_logs_session \<Rightarrow> world \<Rightarrow> job_logs_session \<times> world" where
  "job_logs_drain l w =
     (case get_messages (jl_consumer l) w of
        (messages, w1) \<Rightarrow>
          (case drain (jl_consumer l) messages (jl_num_message_retries l + 1) w1 of
             (n, w2) \<Rightarrow> (l\<lparr>jl_num_message_retries := n\<rparr>, w2)))"

text \<open>Lines 251-258: the check of the status of the job.\<close>

definition job_logs_check :: "job_logs_session \<Rightarrow> world \<Rightarrow> job_logs_session \<times> world" where
  "job_logs_check l w =
     (if jl_num_message_retries l > MAX_RETRIES
      then (let j = job_refresh (database w) (jl_job l)
            in if j_is_done j
               then (l\<lparr>jl_job := j\<rparr>, set_consumer_ws (jl_consumer l) [] w)
               else (l\<lparr>jl_job := j,
                       jl_num_message_retries := jl_num_message_retries l - CHECK_DELAY\<rparr>, w))
      else (l, w))"

text \<open>Lines 260-278: the closed connection, the empty group, the return or the sleep.\<close>

definition job_logs_quit :: "job_logs_session \<Rightarrow> world \<Rightarrow> job_logs_session outcome" where
  "job_logs_quit l w =
     (let (l1, w1) =
            (if jl_ws l \<in> connection_lost w
             then (l\<lparr>jl_should_quite := True\<rparr>,
                   set_consumer_ws (jl_consumer l)
                     (remove_sockets {jl_ws l} (consumer_ws (consumers w (jl_consumer l)))) w)
             else (l, w));
          (l2, w2) =
            (if consumer_ws (consumers w1 (jl_consumer l)) = []
             then (l1\<lparr>jl_should_quite := True\<rparr>,
                   w1\<lparr>monitored_job_logs := monitored_job_logs w1 - {jl_job_uuid l}\<rparr>)
             else (l1, w1))
      in if jl_should_quite l2 then Return w2 else Sleep l2 w2)"

definition job_logs_cycle :: "job_logs_session \<Rightarrow> world \<Rightarrow> job_logs_session outcome" where
  "job_logs_cycle l w =
     (case job_logs_drain l w of
        (l1, w1) \<Rightarrow> (case job_logs_check l1 w1 of (l2, w2) \<Rightarrow> job_logs_quit l2 w2))"

subsection \<open>\<open>experiment_logs\<close> (lines 281-351)\<close>

record experiment_logs_session =
  el_ws :: conn
  el_experiment :: "experiment"
  el_experiment_uuid :: uuid
  el_consumer :: ref
  el_should_quite :: bool
  el_num_message_retries :: int

definition experiment_logs_setup ::
  "request \<Rightarrow> conn \<Rightarrow> string \<Rightarrow> string \<Rightarrow> string \<Rightarrow> world
     \<Rightarrow> (sanic_exception + experiment_logs_session) \<times> world" where
  "experiment_logs_setup request ws username project_name experiment_id w =
     (case get_project (database w) username project_name of
        Inl exn \<Rightarrow> (Inl exn, w)
      | Inr project \<Rightarrow>
     (let unraised = forbidden_unraised (database w) (request_user request) project in
      case get_running_experiment (database w) project experiment_id of
        Inl exn \<Rightarrow> (Inl exn, w)
      | Inr e \<Rightarrow>
     (let experiment_uuid = e_uuid e;
          w1 = auditor_record EXPERIMENT_LOGS_VIEWED experiment_uuid
                 (user_id (request_user request)) w;
          w2 = (if experiment_uuid \<notin> monitored_experiment_logs w1
                then w1\<lparr>monitored_experiment_logs :=
                          insert experiment_uuid (monitored_experiment_logs w1)\<rparr>
                else w1);
          (consumer, w3) =
            (case map_of (experiment_logs_consumers w2) experiment_uuid of
               Some r \<Rightarrow> (r, w2)
             | None \<Rightarrow>
                 (case new_consumer
                         (routing_keys_LOGS_SIDECARS w2 @ ''.'' @ experiment_uuid @ ''.*'')
                         (celery_queues_STREAM_LOGS_SIDECARS w2 @ ''.'' @ experiment_uuid) w2 of
                    (r, w') \<Rightarrow>
                      (r, consumer_run r
                            (w'\<lparr>experiment_logs_consumers :=
                                  AList.update experiment_uuid r (experiment_logs_consumers w')\<rparr>))));
          w4 = set_consumer_ws consumer (add_socket ws (consumer_ws (consumers w3 consumer))) w3
      in (Inr \<lparr>el_ws = ws, el_experiment = e, el_experiment_uuid = experiment_uuid,
               el_consumer = consumer, el_should_quite = False,
               el_num_message_retries = 0\<rparr>, w4))))"

definition experiment_logs_drain ::
  "experiment_logs_session \<Rightarrow> world \<Rightarrow> experiment_logs_session \<times> world" where
  "experiment_logs_drain l w =
     (case get_messages (el_consumer l) w of
        (messages, w1) \<Rightarrow>
          (case drain (el_consumer l) messages (el_num_message_retries l + 1) w1 of
             (n, w2) \<Rightarrow> (l\<lparr>el_num_message_retries := n\<rparr>, w2)))"

definition experiment_logs_check ::
  "experiment_logs_session \<Rightarrow> world \<Rightarrow> experiment_logs_session \<times> world" where
  "experiment_logs_check l w =
     (if el_num_message_retries l > MAX_RETRIES
      then (let e = experiment_refresh (database w) (el_experiment l)
            in if e_is_done e
               then (l\<lparr>el_experiment := e\<rparr>, set_consumer_ws (el_consumer l) [] w)
               else (l\<lparr>el_experiment := e,
                       el_num_message_retries := el_num_message_retries l - CHECK_DELAY\<rparr>, w))
      else (l, w))"

definition experiment_logs_quit ::
  "experiment_logs_session \<Rightarrow> world \<Rightarrow> experiment_logs_session outcome" where
  "experiment_logs_quit l w =
     (let (l1, w1) =
            (if el_ws l \<in> connection_lost w
             then (l\<lparr>el_should_quite := True\<rparr>,
                   set_consumer_ws (el_consumer l)
                     (remove_sockets {el_ws l} (consumer_ws (consumers w (el_consumer l)))) w)
             else (l, w));
          (l2, w2) =
            (if consumer_ws (consumers w1 (el_consumer l)) = []
             then (l1\<lparr>el_should_quite := True\<rparr>,
                   w1\<lparr>monitored_experiment_logs :=
                        monitored_experiment_logs w1 - {el_experiment_uuid l}\<rparr>)
             else (l1, w1))
      in if el_should_quite l2 then Return w2 else Sleep l2 w2)"

definition experiment_logs_cycle ::
  "experiment_logs_session \<Rightarrow> world \<Rightarrow> experiment_logs_session outcome" where
  "experiment_logs_cycle l w =
     (case experiment_logs_drain l w of
        (l1, w1) \<Rightarrow>
          (case experiment_logs_check l1 w1 of (l2, w2) \<Rightarrow> experiment_logs_quit l2 w2))"

subsection \<open>The listeners (lines 388-409)\<close>


text \<open>
  Lines 401-404: for each key of the table, the entry is popped and the consumer
  stopped. The keys are those of the table, so \<open>pop\<close> finds each of them.
\<close>

fun stop_job_logs_consumers :: "uuid list \<Rightarrow> world \<Rightarrow> world" where
  "stop_job_logs_consumers [] w = w"
| "stop_job_logs_consumers (consumer_key # consumer_keys) w =
     (case map_of (job_logs_consumers w) consumer_key of
        None \<Rightarrow> stop_job_logs_consumers consumer_keys w
      | Some r \<Rightarrow>
          stop_job_logs_consumers consumer_keys
            (consumer_stop r
               (w\<lparr>job_logs_consumers := AList.delete consumer_key (job_logs_consumers w)\<rparr>)))"

fun stop_experiment_logs_consumers :: "uuid list \<Rightarrow> world \<Rightarrow> world" where
  "stop_experiment_logs_consumers [] w = w"
| "stop_experiment_logs_consumers (consumer_key # consumer_keys) w =
     (case map_of (experiment_logs_consumers w) consumer_key of
        None \<Rightarrow> stop_experiment_logs_consumers consumer_keys w
      | Some r \<Rightarrow>
          stop_experiment_logs_consumers consumer_keys
            (consumer_stop r
               (w\<lparr>experiment_logs_consumers :=
                    AList.delete consumer_key (experiment_logs_consumers w)\<rparr>)))"

text \<open>
  Line 398 empties \<open>job_resources_ws_mangers\<close>; line 399 assigns the attribute
  \<open>experiment_resources_ws_manger\<close>, whose name lacks the final \<open>s\<close> of the table.
\<close>

definition notify_server_stopped :: "world \<Rightarrow> world" where
  "notify_server_stopped w =
     (let w1 = w\<lparr>job_resources_ws_mangers := []\<rparr>;
          w2 = w1\<lparr>experiment_resources_ws_manger := []\<rparr>;
          w3 = stop_job_logs_consumers (map fst (job_logs_consumers w2)) w2
      in stop_experiment_logs_consumers (map fst (experiment_logs_consumers w3)) w3)"

subsection \<open>The whole handler \<open>experiment_resources\<close>\<close>

text \<open>
  What changes while a handler sleeps and is not the gateway's doing: the rows of the
  database, the content of the cache, the state of the transports.
\<close>

record env_step =
  env_database :: db
  env_latest_job_resources :: "uuid \<Rightarrow> string \<Rightarrow> message option"
  env_latest_experiment_resources :: "(uuid \<times> string) list \<Rightarrow> message option"
  env_send_closed :: "conn set"
  env_connection_lost :: "conn set"

definition apply_env :: "env_step \<Rightarrow> world \<Rightarrow> world" where
  "apply_env env w =
     w\<lparr>database := env_database env,
       latest_job_resources := env_latest_job_resources env,
       latest_experiment_resources := env_latest_experiment_resources env,
       send_closed := env_send_closed env,
       connection_lost := env_connection_lost env\<rparr>"

text \<open>
  The loop \<open>while True\<close> of lines 175-203, run for as many passes as there are sleeps
  in \<open>envs\<close>, and one more: each pass ends the handler or sleeps, and the world the
  next pass sees is the one the sleep left, changed by the next step of the environment.
  The result is \<open>Sleep\<close> when the handler is still running after the last pass.
\<close>

fun experiment_resources_loop ::
  "experiment_resources_session \<Rightarrow> env_step list \<Rightarrow> world
     \<Rightarrow> experiment_resources_session outcome" where
  "experiment_resources_loop l [] w = experiment_resources_cycle l w"
| "experiment_resources_loop l (env # envs) w =
     (case experiment_resources_cycle l w of
        Return w' \<Rightarrow> Return w'
      | Sleep l' w' \<Rightarrow> experiment_resources_loop l' envs (apply_env env w'))"

definition experiment_resources ::
  "request \<Rightarrow> conn \<Rightarrow> string \<Rightarrow> string \<Rightarrow> string \<Rightarrow> env_step list \<Rightarrow> world
     \<Rightarrow> sanic_exception option \<times> world" where
  "experiment_resources request ws username project_name experiment_id envs w =
     (case experiment_resources_setup request ws username project_name experiment_id w of
        (Inl exn, w') \<Rightarrow> (Some exn, w')
      | (Inr l, w') \<Rightarrow> (None, outcome_world (experiment_resources_loop l envs w')))"

subsection \<open>Sessions sharing the tables\<close>

text \<open>
  The event loop runs one handler per open connection. A \<open>system\<close> is the world and
  the handlers that are asleep, each with its local variables; \<open>sys_next_conn\<close> is
  the handle the next connection gets.
\<close>

datatype session =
  Job_logs job_logs_session
| Experiment_logs experiment_logs_session
| Job_resources job_resources_session
| Experiment_resources experiment_resources_session





fun wrap_outcome :: "('s \<Rightarrow> session) \<Rightarrow> 's outcome \<Rightarrow> session outcome" where
  "wrap_outcome wrap (Return w) = Return w"
| "wrap_outcome wrap (Sleep l w) = Sleep (wrap l) w"







subsection \<open>What the tables and the handlers agree on\<close>










text \<open>The tables, the socket managers and the next reference are the same.\<close>

definition unchanged :: "world \<Rightarrow> world \<Rightarrow> bool" where
  "unchanged w w' =
     (job_logs_consumers w' = job_logs_consumers w
      \<and> experiment_logs_consumers w' = experiment_logs_consumers w
      \<and> job_resources_ws_mangers w' = job_resources_ws_mangers w
      \<and> experiment_resources_ws_mangers w' = experiment_resources_ws_mangers w
      \<and> socket_managers w' = socket_managers w
      \<and> next_ref w' = next_ref w)"





subsection \<open>A small installation\<close>

text \<open>
  One project of user \<open>alice\<close> with a running experiment and a finished one, a
  running job and a finished one; \<open>alice\<close> may read the project, \<open>mallory\<close> may not.
\<close>

definition alice :: user where "alice = \<lparr>user_id = 1\<rparr>"
definition mallory :: user where "mallory = \<lparr>user_id = 2\<rparr>"
definition mnist :: project where "mnist = \<lparr>p_name = ''mnist'', p_username = ''alice''\<rparr>"
definition exp_live :: "experiment" where
  "exp_live = \<lparr>e_uuid = ''e1'', e_unique_name = ''alice.mnist.1'', e_is_running = True, e_is_done = False\<rparr>"
definition exp_over :: "experiment" where
  "exp_over = \<lparr>e_uuid = ''e2'', e_unique_name = ''alice.mnist.2'', e_is_running = False, e_is_done = True\<rparr>"
definition job_live :: job where
  "job_live = \<lparr>j_id = 1, j_role = ''master'', j_uuid = ''j1'', j_is_running = True, j_is_done = False\<rparr>"
definition job_over :: job where
  "job_over = \<lparr>j_id = 2, j_role = ''worker'', j_uuid = ''j2'', j_is_running = False, j_is_done = True\<rparr>"

definition example_db :: db where
  "example_db =
     \<lparr>project_get = (\<lambda>name username. if name = ''mnist'' \<and> username = ''alice'' then Some mnist else None),
      experiment_get = (\<lambda>p i. if i = ''1'' then Found exp_live else if i = ''2'' then Found exp_over
                              else if i = ''x'' then ValidationError else DoesNotExist),
      job_get = (\<lambda>e i. if i = ''1'' then Found job_live else if i = ''2'' then Found job_over
                        else if i = ''x'' then ValidationError else DoesNotExist),
      experiment_jobs = (\<lambda>e. [job_live, job_over]),
      job_refresh = (\<lambda>j. j),
      experiment_refresh = (\<lambda>e. e),
      has_project_permissions = (\<lambda>u p method. user_id u = 1)\<rparr>"

definition idle_consumer :: consumer where
  "idle_consumer = \<lparr>consumer_routing_key = [], consumer_queue = [], consumer_ws = [],
                    consumer_running = False, consumer_buffer = []\<rparr>"

definition example_world :: world where
  "example_world =
     \<lparr>database = example_db,
      routing_keys_LOGS_SIDECARS = ''logs.sidecars'',
      celery_queues_STREAM_LOGS_SIDECARS = ''streams.logs.sidecars'',
      job_resources_ws_mangers = [],
      experiment_resources_ws_mangers = [],
      job_logs_consumers = [],
      experiment_logs_consumers = [],
      experiment_resources_ws_manger = [],
      socket_managers = (\<lambda>r. []),
      consumers = (\<lambda>r. idle_consumer),
      next_ref = 0,
      monitored_job_resources = {},
      monitored_experiment_resources = {},
      monitored_job_logs = {},
      monitored_experiment_logs = {},
      latest_job_resources = (\<lambda>u n. None),
      latest_experiment_resources = (\<lambda>js. None),
      experiment_fetches = [],
      audit = [],
      send_closed = {},
      connection_lost = {},
      sent = []\<rparr>"

text \<open>A group of three viewers on one consumer; the transport of viewer 2 is closed.\<close>

definition example_group :: world where
  "example_group =
     example_world
       \<lparr>job_logs_consumers := [(''j1'', 0)],
        consumers := (\<lambda>r. idle_consumer)
          (0 := idle_consumer\<lparr>consumer_ws := [1, 2, 3], consumer_running := True\<rparr>),
        next_ref := 1,
        send_closed := {2}\<rparr>"

text \<open>The same group once the rows of the database say that everything has finished.\<close>

definition finished_db :: db where
  "finished_db =
     example_db
       \<lparr>job_refresh := (\<lambda>j. j\<lparr>j_is_running := False, j_is_done := True\<rparr>),
        experiment_refresh := (\<lambda>e. e\<lparr>e_is_running := False, e_is_done := True\<rparr>)\<rparr>"

definition example_group_finished :: world where
  "example_group_finished = example_group\<lparr>database := finished_db\<rparr>"

text \<open>The handlers of viewer 1 after seven passes without a message.\<close>

definition example_job_logs_session :: job_logs_session where
  "example_job_logs_session =
     \<lparr>jl_ws = 1, jl_job = job_live, jl_job_uuid = ''j1'', jl_consumer = 0,
      jl_should_quite = False, jl_num_message_retries = 7\<rparr>"

definition example_experiment_logs_session :: experiment_logs_session where
  "example_experiment_logs_session =
     \<lparr>el_ws = 1, el_experiment = exp_live, el_experiment_uuid = ''e1'', el_consumer = 0,
      el_should_quite = False, el_num_message_retries = 7\<rparr>"

text \<open>Viewer 1 alone on the logs of job \<open>j1\<close>, its connection lost.\<close>

definition example_last_viewer :: world where
  "example_last_viewer =
     example_world
       \<lparr>job_logs_consumers := [(''j1'', 0)],
        experiment_logs_consumers := [(''e1'', 1)],
        consumers := (\<lambda>r. idle_consumer)
          (0 := idle_consumer\<lparr>consumer_ws := [1], consumer_running := True\<rparr>,
           1 := idle_consumer\<lparr>consumer_ws := [1], consumer_running := True\<rparr>),
        next_ref := 2,
        monitored_job_logs := {''j1''},
        monitored_experiment_logs := {''e1''},
        connection_lost := {1}\<rparr>"

definition example_last_job_logs_session :: job_logs_session where
  "example_last_job_logs_session =
     \<lparr>jl_ws = 1, jl_job = job_live, jl_job_uuid = ''j1'', jl_consumer = 0,
      jl_should_quite = False, jl_num_message_retries = 0\<rparr>"

definition example_last_experiment_logs_session :: experiment_logs_session where
  "example_last_experiment_logs_session =
     \<lparr>el_ws = 1, el_experiment = exp_live, el_experiment_uuid = ''e1'', el_consumer = 1,
      el_should_quite = False, el_num_message_retries = 0\<rparr>"

text \<open>
  Viewers 1 and 2 on the resources of job \<open>j1\<close> and of experiment \<open>e1\<close>; the
  cache has a snapshot for both.
\<close>

definition example_metrics :: world where
  "example_metrics =
     example_world
       \<lparr>job_resources_ws_mangers := [(''j1'', 0)],
        experiment_resources_ws_mangers := [(''e1'', 1)],
        socket_managers := (\<lambda>r. [])(0 := [1, 2], 1 := [1, 2]),
        next_ref := 2,
        monitored_job_resources := {''j1''},
        monitored_experiment_resources := {''e1''},
        latest_job_resources := (\<lambda>u n. Some ''cpu=10''),
        latest_experiment_resources := (\<lambda>js. Some ''cpu=10'')\<rparr>"

definition example_metrics_finished :: world where
  "example_metrics_finished = example_metrics\<lparr>database := finished_db\<rparr>"

definition example_job_resources_session :: job_resources_session where
  "example_job_resources_session =
     \<lparr>jr_ws = 1, jr_job = job_live, jr_job_uuid = ''j1'', jr_job_name = ''master.1'',
      jr_ws_manager = 0, jr_should_check = 0\<rparr>"

definition example_experiment_resources_session :: experiment_resources_session where
  "example_experiment_resources_session =
     \<lparr>er_ws = 1, er_experiment = exp_live, er_experiment_uuid = ''e1'', er_ws_manager = 1,
      er_jobs = [(''j1'', ''master.1''), (''j2'', ''worker.2'')], er_should_check = 0\<rparr>"

text \<open>All four tables in use at once.\<close>

definition example_busy :: world where
  "example_busy =
     example_last_viewer
       \<lparr>job_resources_ws_mangers := [(''j1'', 2)],
        experiment_resources_ws_mangers := [(''e1'', 3)],
        socket_managers := (\<lambda>r. [])(2 := [1], 3 := [1]),
        next_ref := 4,
        monitored_job_resources := {''j1''},
        monitored_experiment_resources := {''e1''}\<rparr>"

text \<open>A sleep during which every job of every experiment is deleted from the database.\<close>

definition example_jobs_gone :: env_step where
  "example_jobs_gone =
     \<lparr>env_database = example_db\<lparr>experiment_jobs := (\<lambda>e. [])\<rparr>,
      env_latest_job_resources = (\<lambda>u n. None),
      env_latest_experiment_resources = (\<lambda>js. Some ''cpu=10''),
      env_send_closed = {},
      env_connection_lost = {}\<rparr>"





section \<open>Properties\<close>

subsection \<open>The fan-out\<close>

lemma fan_out_consumers: "consumers (snd (fan_out m cs d w)) = consumers w"
  by (induction cs arbitrary: d w) (auto simp: ws_send_def)

lemma fan_out_disconnected:
  "fst (fan_out m cs d w) = d \<union> {c \<in> set cs. c \<in> send_closed w}"
  by (induction cs arbitrary: d w) (auto simp: ws_send_def)

lemma fan_out_sent:
  "sent (snd (fan_out m cs d w)) =
     sent w @ map (\<lambda>c. (c, m)) (filter (\<lambda>c. c \<notin> send_closed w) cs)"
  by (induction cs arbitrary: d w) (auto simp: ws_send_def)

lemma broadcast_unfold:
  "broadcast r m w =
     set_consumer_ws r
       (filter (\<lambda>c. c \<notin> send_closed w) (consumer_ws (consumers w r)))
       (snd (fan_out m (consumer_ws (consumers w r)) {} w))"
proof -
  obtain d w' where f: "fan_out m (consumer_ws (consumers w r)) {} w = (d, w')"
    by (cases "fan_out m (consumer_ws (consumers w r)) {} w")
  have d: "d = {c \<in> set (consumer_ws (consumers w r)). c \<in> send_closed w}"
    using fan_out_disconnected [of m "consumer_ws (consumers w r)" "{}" w] f by simp
  have c: "consumers w' = consumers w"
    using fan_out_consumers [of m "consumer_ws (consumers w r)" "{}" w] f by simp
  have "filter (\<lambda>c. c \<notin> d) (consumer_ws (consumers w r)) =
        filter (\<lambda>c. c \<notin> send_closed w) (consumer_ws (consumers w r))"
    unfolding d by (rule filter_cong) auto
  then show ?thesis
    using f c by (simp add: broadcast_def remove_sockets_def)
qed

text \<open>
  Claim C7. One pass of the log fan-out hands the message to every member of the group
  whose transport accepts it, whatever failed before it in the pass: the deliveries of
  the pass are the members with an open transport, in the order of iteration. The
  membership is the same at the end of the pass as at its start, and the members whose
  send failed leave the group after the pass, all at once.
\<close>

theorem fan_out_reaches_every_open_member:
  "sent (broadcast r m w) =
     sent w @ map (\<lambda>c. (c, m))
                (filter (\<lambda>c. c \<notin> send_closed w) (consumer_ws (consumers w r)))
   \<and> consumers (snd (fan_out m (consumer_ws (consumers w r)) {} w)) = consumers w
   \<and> fst (fan_out m (consumer_ws (consumers w r)) {} w) =
       {c \<in> set (consumer_ws (consumers w r)). c \<in> send_closed w}
   \<and> consumer_ws (consumers (broadcast r m w) r) =
       filter (\<lambda>c. c \<notin> send_closed w) (consumer_ws (consumers w r))"
  by (simp add: broadcast_unfold set_consumer_ws_def fan_out_sent fan_out_consumers
      fan_out_disconnected)

theorem fan_out_reaches_every_open_member_witness:
  "sent (broadcast 0 ''line1'' example_group) = [(1, ''line1''), (3, ''line1'')]
   \<and> consumer_ws (consumers (broadcast 0 ''line1'' example_group) 0) = [1, 3]"
  using fan_out_reaches_every_open_member [of 0 "''line1''" example_group]
  by (simp add: example_group_def example_world_def idle_consumer_def)

subsection \<open>The drain\<close>

lemma fan_out_world:
  "snd (fan_out m cs d w) =
     w\<lparr>sent := sent w @ map (\<lambda>c. (c, m)) (filter (\<lambda>c. c \<notin> send_closed w) cs)\<rparr>"
  by (induction cs arbitrary: d w) (auto simp: ws_send_def)

lemma broadcast_world:
  "broadcast r m w =
     w\<lparr>sent := sent w @ map (\<lambda>c. (c, m)) (open_members r w),
       consumers := (consumers w)(r := (consumers w r)\<lparr>consumer_ws := open_members r w\<rparr>)\<rparr>"
  by (simp add: broadcast_unfold fan_out_world set_consumer_ws_def open_members_def)

lemma drain_world:
  "drain r ms n w =
     (if ms = [] then (n, w)
      else (0, w\<lparr>sent := sent w @ concat (map (\<lambda>m. map (\<lambda>c. (c, m)) (open_members r w)) ms),
                 consumers := (consumers w)
                   (r := (consumers w r)\<lparr>consumer_ws := open_members r w\<rparr>)\<rparr>))"
proof (induction ms arbitrary: n w)
  case Nil
  show ?case by simp
next
  case (Cons m ms)
  define w1 where "w1 = broadcast r m w"
  have o: "open_members r w1 = open_members r w"
    by (simp add: w1_def broadcast_world open_members_def)
  have s1: "sent w1 = sent w @ map (\<lambda>c. (c, m)) (open_members r w)"
    by (simp add: w1_def broadcast_world)
  have c1: "consumers w1 r = (consumers w r)\<lparr>consumer_ws := open_members r w\<rparr>"
    by (simp add: w1_def broadcast_world)
  have w1: "w1 = w\<lparr>sent := sent w @ map (\<lambda>c. (c, m)) (open_members r w),
       consumers := (consumers w)(r := (consumers w r)\<lparr>consumer_ws := open_members r w\<rparr>)\<rparr>"
    by (simp add: w1_def broadcast_world)
  have "drain r (m # ms) n w = drain r ms 0 w1"
    by (simp add: w1_def)
  also have "\<dots> = (if ms = [] then (0, w1)
      else (0, w1\<lparr>sent := sent w1 @ concat (map (\<lambda>m. map (\<lambda>c. (c, m)) (open_members r w)) ms),
                 consumers := (consumers w1)
                   (r := (consumers w1 r)\<lparr>consumer_ws := open_members r w\<rparr>)\<rparr>))"
    using Cons.IH [of 0 w1] by (simp add: o)
  also have "\<dots> = (0, w\<lparr>sent := sent w @ concat (map (\<lambda>m. map (\<lambda>c. (c, m)) (open_members r w)) (m # ms)),
                 consumers := (consumers w)
                   (r := (consumers w r)\<lparr>consumer_ws := open_members r w\<rparr>)\<rparr>)"
    by (simp add: s1 c1) (simp add: w1)
  finally show ?case by simp
qed

lemma job_logs_drain_eq:
  "job_logs_drain l w =
     (if consumer_buffer (consumers w (jl_consumer l)) = []
      then (l\<lparr>jl_num_message_retries := jl_num_message_retries l + 1\<rparr>,
            snd (get_messages (jl_consumer l) w))
      else (l\<lparr>jl_num_message_retries := 0\<rparr>,
            snd (drain (jl_consumer l) (consumer_buffer (consumers w (jl_consumer l))) 0
                   (snd (get_messages (jl_consumer l) w)))))"
  by (simp add: job_logs_drain_def get_messages_def drain_world)

lemma get_messages_fields:
  "database (snd (get_messages r w)) = database w"
  "connection_lost (snd (get_messages r w)) = connection_lost w"
  "send_closed (snd (get_messages r w)) = send_closed w"
  "job_logs_consumers (snd (get_messages r w)) = job_logs_consumers w"
  "experiment_logs_consumers (snd (get_messages r w)) = experiment_logs_consumers w"
  "monitored_job_logs (snd (get_messages r w)) = monitored_job_logs w"
  "monitored_experiment_logs (snd (get_messages r w)) = monitored_experiment_logs w"
  "consumer_ws (consumers (snd (get_messages r w)) r') = consumer_ws (consumers w r')"
  "consumer_running (consumers (snd (get_messages r w)) r') = consumer_running (consumers w r')"
  by (simp_all add: get_messages_def)

lemma drain_fields:
  "database (snd (drain r ms n w)) = database w"
  "connection_lost (snd (drain r ms n w)) = connection_lost w"
  "send_closed (snd (drain r ms n w)) = send_closed w"
  "job_logs_consumers (snd (drain r ms n w)) = job_logs_consumers w"
  "experiment_logs_consumers (snd (drain r ms n w)) = experiment_logs_consumers w"
  "monitored_job_logs (snd (drain r ms n w)) = monitored_job_logs w"
  "monitored_experiment_logs (snd (drain r ms n w)) = monitored_experiment_logs w"
  "consumer_running (consumers (snd (drain r ms n w)) r') = consumer_running (consumers w r')"
  by (simp_all add: drain_world)

lemma drain_members:
  "consumer_ws (consumers (snd (drain r ms n w)) r) =
     (if ms = [] then consumer_ws (consumers w r) else open_members r w)"
  by (simp add: drain_world)

lemma experiment_logs_drain_eq:
  "experiment_logs_drain l w =
     (if consumer_buffer (consumers w (el_consumer l)) = []
      then (l\<lparr>el_num_message_retries := el_num_message_retries l + 1\<rparr>,
            snd (get_messages (el_consumer l) w))
      else (l\<lparr>el_num_message_retries := 0\<rparr>,
            snd (drain (el_consumer l) (consumer_buffer (consumers w (el_consumer l))) 0
                   (snd (get_messages (el_consumer l) w)))))"
  by (simp add: experiment_logs_drain_def get_messages_def drain_world)

lemma job_logs_tail:
  "(case job_logs_check l w of (l2, w2) \<Rightarrow> job_logs_quit l2 w2) = X \<Longrightarrow>
   (case X of
      Return w' \<Rightarrow>
        (jl_num_message_retries l > 7 \<and> j_is_done (job_refresh (database w) (jl_job l))
         \<longrightarrow> consumer_ws (consumers w' (jl_consumer l)) = [])
    | Sleep l' w' \<Rightarrow>
        \<not> (jl_num_message_retries l > 7 \<and> j_is_done (job_refresh (database w) (jl_job l)))
        \<and> jl_num_message_retries l' =
            (if jl_num_message_retries l > 7 then jl_num_message_retries l - 5
             else jl_num_message_retries l)
        \<and> jl_job l' =
            (if jl_num_message_retries l > 7 then job_refresh (database w) (jl_job l)
             else jl_job l))"
  by (auto simp: job_logs_check_def job_logs_quit_def MAX_RETRIES_def CHECK_DELAY_def Let_def
      set_consumer_ws_def remove_sockets_def split: if_splits)

lemma job_logs_drain_fields:
  "jl_num_message_retries (fst (job_logs_drain l w)) =
     (if consumer_buffer (consumers w (jl_consumer l)) = []
      then jl_num_message_retries l + 1 else 0)"
  "jl_job (fst (job_logs_drain l w)) = jl_job l"
  "jl_consumer (fst (job_logs_drain l w)) = jl_consumer l"
  "jl_ws (fst (job_logs_drain l w)) = jl_ws l"
  "jl_job_uuid (fst (job_logs_drain l w)) = jl_job_uuid l"
  "jl_should_quite (fst (job_logs_drain l w)) = jl_should_quite l"
  "database (snd (job_logs_drain l w)) = database w"
  "connection_lost (snd (job_logs_drain l w)) = connection_lost w"
  "job_logs_consumers (snd (job_logs_drain l w)) = job_logs_consumers w"
  "monitored_job_logs (snd (job_logs_drain l w)) = monitored_job_logs w"
  "consumer_running (consumers (snd (job_logs_drain l w)) r) = consumer_running (consumers w r)"
  by (simp_all add: job_logs_drain_eq get_messages_fields drain_fields)

lemma job_logs_cycle_tail:
  "job_logs_cycle l w =
     (case job_logs_check (fst (job_logs_drain l w)) (snd (job_logs_drain l w)) of
        (l2, w2) \<Rightarrow> job_logs_quit l2 w2)"
  by (simp add: job_logs_cycle_def split: prod.splits)

lemma experiment_logs_tail:
  "(case experiment_logs_check l w of (l2, w2) \<Rightarrow> experiment_logs_quit l2 w2) = X \<Longrightarrow>
   (case X of
      Return w' \<Rightarrow>
        (el_num_message_retries l > 7 \<and> e_is_done (experiment_refresh (database w) (el_experiment l))
         \<longrightarrow> consumer_ws (consumers w' (el_consumer l)) = [])
    | Sleep l' w' \<Rightarrow>
        \<not> (el_num_message_retries l > 7 \<and> e_is_done (experiment_refresh (database w) (el_experiment l)))
        \<and> el_num_message_retries l' =
            (if el_num_message_retries l > 7 then el_num_message_retries l - 5
             else el_num_message_retries l)
        \<and> el_experiment l' =
            (if el_num_message_retries l > 7 then experiment_refresh (database w) (el_experiment l)
             else el_experiment l))"
  by (auto simp: experiment_logs_check_def experiment_logs_quit_def MAX_RETRIES_def CHECK_DELAY_def Let_def
      set_consumer_ws_def remove_sockets_def split: if_splits)

lemma experiment_logs_drain_fields:
  "el_num_message_retries (fst (experiment_logs_drain l w)) =
     (if consumer_buffer (consumers w (el_consumer l)) = []
      then el_num_message_retries l + 1 else 0)"
  "el_experiment (fst (experiment_logs_drain l w)) = el_experiment l"
  "el_consumer (fst (experiment_logs_drain l w)) = el_consumer l"
  "el_ws (fst (experiment_logs_drain l w)) = el_ws l"
  "el_experiment_uuid (fst (experiment_logs_drain l w)) = el_experiment_uuid l"
  "el_should_quite (fst (experiment_logs_drain l w)) = el_should_quite l"
  "database (snd (experiment_logs_drain l w)) = database w"
  "connection_lost (snd (experiment_logs_drain l w)) = connection_lost w"
  "experiment_logs_consumers (snd (experiment_logs_drain l w)) = experiment_logs_consumers w"
  "monitored_experiment_logs (snd (experiment_logs_drain l w)) = monitored_experiment_logs w"
  "consumer_running (consumers (snd (experiment_logs_drain l w)) r) = consumer_running (consumers w r)"
  by (simp_all add: experiment_logs_drain_eq get_messages_fields drain_fields)

lemma experiment_logs_cycle_tail:
  "experiment_logs_cycle l w =
     (case experiment_logs_check (fst (experiment_logs_drain l w)) (snd (experiment_logs_drain l w)) of
        (l2, w2) \<Rightarrow> experiment_logs_quit l2 w2)"
  by (simp add: experiment_logs_cycle_def split: prod.splits)

subsection \<open>The retry counter of the log handlers\<close>

lemma job_logs_tail_forced:
  assumes "jl_num_message_retries l > 7" and "j_is_done (job_refresh (database w) (jl_job l))"
  shows "(case job_logs_check l w of (l2, w2) \<Rightarrow> job_logs_quit l2 w2) =
     Return ((set_consumer_ws (jl_consumer l) [] w)
               \<lparr>monitored_job_logs := monitored_job_logs w - {jl_job_uuid l}\<rparr>)"
  using assms
  by (simp add: job_logs_check_def job_logs_quit_def MAX_RETRIES_def Let_def
      set_consumer_ws_def remove_sockets_def)

lemma job_logs_tail_live:
  assumes "\<not> (jl_num_message_retries l > 7 \<and> j_is_done (job_refresh (database w) (jl_job l)))"
    and "\<not> jl_should_quite l" and "jl_ws l \<notin> connection_lost w"
    and "consumer_ws (consumers w (jl_consumer l)) \<noteq> []"
  shows "(case job_logs_check l w of (l2, w2) \<Rightarrow> job_logs_quit l2 w2) =
     Sleep (if jl_num_message_retries l > 7
            then l\<lparr>jl_job := job_refresh (database w) (jl_job l),
                   jl_num_message_retries := jl_num_message_retries l - 5\<rparr>
            else l) w"
  using assms
  by (auto simp: job_logs_check_def job_logs_quit_def MAX_RETRIES_def CHECK_DELAY_def Let_def)

lemma job_logs_cycle_forced:
  assumes "jl_num_message_retries (fst (job_logs_drain l w)) > 7"
    and "j_is_done (job_refresh (database w) (jl_job l))"
  shows "job_logs_cycle l w =
     Return ((set_consumer_ws (jl_consumer l) [] (snd (job_logs_drain l w)))
               \<lparr>monitored_job_logs := monitored_job_logs w - {jl_job_uuid l}\<rparr>)"
  using job_logs_tail_forced [of "fst (job_logs_drain l w)" "snd (job_logs_drain l w)"] assms
  by (simp add: job_logs_cycle_tail job_logs_drain_fields)

lemma job_logs_cycle_live:
  assumes "\<not> (jl_num_message_retries (fst (job_logs_drain l w)) > 7
              \<and> j_is_done (job_refresh (database w) (jl_job l)))"
    and "\<not> jl_should_quite l" and "jl_ws l \<notin> connection_lost w"
    and "consumer_ws (consumers (snd (job_logs_drain l w)) (jl_consumer l)) \<noteq> []"
  shows "job_logs_cycle l w =
     Sleep (if jl_num_message_retries (fst (job_logs_drain l w)) > 7
            then (fst (job_logs_drain l w))
                   \<lparr>jl_job := job_refresh (database w) (jl_job l),
                    jl_num_message_retries :=
                      jl_num_message_retries (fst (job_logs_drain l w)) - 5\<rparr>
            else fst (job_logs_drain l w))
       (snd (job_logs_drain l w))"
  using job_logs_tail_live [of "fst (job_logs_drain l w)" "snd (job_logs_drain l w)"] assms
  by (simp add: job_logs_cycle_tail job_logs_drain_fields)

lemma experiment_logs_tail_forced:
  assumes "el_num_message_retries l > 7" and "e_is_done (experiment_refresh (database w) (el_experiment l))"
  shows "(case experiment_logs_check l w of (l2, w2) \<Rightarrow> experiment_logs_quit l2 w2) =
     Return ((set_consumer_ws (el_consumer l) [] w)
               \<lparr>monitored_experiment_logs := monitored_experiment_logs w - {el_experiment_uuid l}\<rparr>)"
  using assms
  by (simp add: experiment_logs_check_def experiment_logs_quit_def MAX_RETRIES_def Let_def
      set_consumer_ws_def remove_sockets_def)

lemma experiment_logs_tail_live:
  assumes "\<not> (el_num_message_retries l > 7 \<and> e_is_done (experiment_refresh (database w) (el_experiment l)))"
    and "\<not> el_should_quite l" and "el_ws l \<notin> connection_lost w"
    and "consumer_ws (consumers w (el_consumer l)) \<noteq> []"
  shows "(case experiment_logs_check l w of (l2, w2) \<Rightarrow> experiment_logs_quit l2 w2) =
     Sleep (if el_num_message_retries l > 7
            then l\<lparr>el_experiment := experiment_refresh (database w) (el_experiment l),
                   el_num_message_retries := el_num_message_retries l - 5\<rparr>
            else l) w"
  using assms
  by (auto simp: experiment_logs_check_def experiment_logs_quit_def MAX_RETRIES_def CHECK_DELAY_def Let_def)

lemma experiment_logs_cycle_forced:
  assumes "el_num_message_retries (fst (experiment_logs_drain l w)) > 7"
    and "e_is_done (experiment_refresh (database w) (el_experiment l))"
  shows "experiment_logs_cycle l w =
     Return ((set_consumer_ws (el_consumer l) [] (snd (experiment_logs_drain l w)))
               \<lparr>monitored_experiment_logs := monitored_experiment_logs w - {el_experiment_uuid l}\<rparr>)"
  using experiment_logs_tail_forced [of "fst (experiment_logs_drain l w)" "snd (experiment_logs_drain l w)"] assms
  by (simp add: experiment_logs_cycle_tail experiment_logs_drain_fields)

lemma experiment_logs_cycle_live:
  assumes "\<not> (el_num_message_retries (fst (experiment_logs_drain l w)) > 7
              \<and> e_is_done (experiment_refresh (database w) (el_experiment l)))"
    and "\<not> el_should_quite l" and "el_ws l \<notin> connection_lost w"
    and "consumer_ws (consumers (snd (experiment_logs_drain l w)) (el_consumer l)) \<noteq> []"
  shows "experiment_logs_cycle l w =
     Sleep (if el_num_message_retries (fst (experiment_logs_drain l w)) > 7
            then (fst (experiment_logs_drain l w))
                   \<lparr>el_experiment := experiment_refresh (database w) (el_experiment l),
                    el_num_message_retries :=
                      el_num_message_retries (fst (experiment_logs_drain l w)) - 5\<rparr>
            else fst (experiment_logs_drain l w))
       (snd (experiment_logs_drain l w))"
  using experiment_logs_tail_live [of "fst (experiment_logs_drain l w)" "snd (experiment_logs_drain l w)"] assms
  by (simp add: experiment_logs_cycle_tail experiment_logs_drain_fields)

text \<open>
  Claim C5. In one pass of the loop of \<open>job_logs\<close> or \<open>experiment_logs\<close>, the counter
  after the drain is the old counter plus one when no message was drained and zero
  when one was. When that value is above 7 the status is read again. If the job (the
  experiment) is done, the pass clears the membership of the group, drops the
  monitoring flag and returns, and changes nothing else after the drain. If it is not
  done, and the connection is not lost and the group not empty, the handler goes to
  sleep in the world the drain left, the group untouched, with the refreshed row and
  the counter lowered by 5. At or below 7 the status is not read and the handler goes to
  sleep with the counter as the drain left it. Whatever else ends a pass, a handler
  that sleeps has the counter and the row just described.
\<close>

theorem logs_retry_counter:
  "(jl_num_message_retries (fst (job_logs_drain l w)) =
     (if consumer_buffer (consumers w (jl_consumer l)) = []
      then jl_num_message_retries l + 1 else 0)
   \<and> (case job_logs_cycle l w of
         Return w' \<Rightarrow>
           (jl_num_message_retries (fst (job_logs_drain l w)) > 7
            \<and> j_is_done (job_refresh (database w) (jl_job l))
            \<longrightarrow> consumer_ws (consumers w' (jl_consumer l)) = [])
       | Sleep l' w' \<Rightarrow>
           \<not> (jl_num_message_retries (fst (job_logs_drain l w)) > 7
              \<and> j_is_done (job_refresh (database w) (jl_job l)))
           \<and> jl_num_message_retries l' =
               (if jl_num_message_retries (fst (job_logs_drain l w)) > 7
                then jl_num_message_retries (fst (job_logs_drain l w)) - 5
                else jl_num_message_retries (fst (job_logs_drain l w)))
           \<and> jl_job l' =
               (if jl_num_message_retries (fst (job_logs_drain l w)) > 7
                then job_refresh (database w) (jl_job l) else jl_job l)))
   \<and>
   (jl_num_message_retries (fst (job_logs_drain l w)) > 7
      \<and> j_is_done (job_refresh (database w) (jl_job l))
    \<longrightarrow> job_logs_cycle l w =
          Return ((set_consumer_ws (jl_consumer l) [] (snd (job_logs_drain l w)))
                    \<lparr>monitored_job_logs := monitored_job_logs w - {jl_job_uuid l}\<rparr>))
   \<and>
   (\<not> (jl_num_message_retries (fst (job_logs_drain l w)) > 7
        \<and> j_is_done (job_refresh (database w) (jl_job l)))
      \<and> \<not> jl_should_quite l \<and> jl_ws l \<notin> connection_lost w
      \<and> consumer_ws (consumers (snd (job_logs_drain l w)) (jl_consumer l)) \<noteq> []
    \<longrightarrow> job_logs_cycle l w =
          Sleep (if jl_num_message_retries (fst (job_logs_drain l w)) > 7
                 then (fst (job_logs_drain l w))
                        \<lparr>jl_job := job_refresh (database w) (jl_job l),
                         jl_num_message_retries :=
                           jl_num_message_retries (fst (job_logs_drain l w)) - 5\<rparr>
                 else fst (job_logs_drain l w))
            (snd (job_logs_drain l w)))
   \<and>
   (el_num_message_retries (fst (experiment_logs_drain k v)) =
     (if consumer_buffer (consumers v (el_consumer k)) = []
      then el_num_message_retries k + 1 else 0)
   \<and> (case experiment_logs_cycle k v of
         Return v' \<Rightarrow>
           (el_num_message_retries (fst (experiment_logs_drain k v)) > 7
            \<and> e_is_done (experiment_refresh (database v) (el_experiment k))
            \<longrightarrow> consumer_ws (consumers v' (el_consumer k)) = [])
       | Sleep k' v' \<Rightarrow>
           \<not> (el_num_message_retries (fst (experiment_logs_drain k v)) > 7
              \<and> e_is_done (experiment_refresh (database v) (el_experiment k)))
           \<and> el_num_message_retries k' =
               (if el_num_message_retries (fst (experiment_logs_drain k v)) > 7
                then el_num_message_retries (fst (experiment_logs_drain k v)) - 5
                else el_num_message_retries (fst (experiment_logs_drain k v)))
           \<and> el_experiment k' =
               (if el_num_message_retries (fst (experiment_logs_drain k v)) > 7
                then experiment_refresh (database v) (el_experiment k) else el_experiment k)))
   \<and>
   (el_num_message_retries (fst (experiment_logs_drain k v)) > 7
      \<and> e_is_done (experiment_refresh (database v) (el_experiment k))
    \<longrightarrow> experiment_logs_cycle k v =
          Return ((set_consumer_ws (el_consumer k) [] (snd (experiment_logs_drain k v)))
                    \<lparr>monitored_experiment_logs := monitored_experiment_logs v - {el_experiment_uuid k}\<rparr>))
   \<and>
   (\<not> (el_num_message_retries (fst (experiment_logs_drain k v)) > 7
        \<and> e_is_done (experiment_refresh (database v) (el_experiment k)))
      \<and> \<not> el_should_quite k \<and> el_ws k \<notin> connection_lost v
      \<and> consumer_ws (consumers (snd (experiment_logs_drain k v)) (el_consumer k)) \<noteq> []
    \<longrightarrow> experiment_logs_cycle k v =
          Sleep (if el_num_message_retries (fst (experiment_logs_drain k v)) > 7
                 then (fst (experiment_logs_drain k v))
                        \<lparr>el_experiment := experiment_refresh (database v) (el_experiment k),
                         el_num_message_retries :=
                           el_num_message_retries (fst (experiment_logs_drain k v)) - 5\<rparr>
                 else fst (experiment_logs_drain k v))
            (snd (experiment_logs_drain k v)))"
  apply (intro conjI)
  subgoal by (rule job_logs_drain_fields)
  subgoal
    using job_logs_tail [OF job_logs_cycle_tail [symmetric], of l w]
    by (simp only: job_logs_drain_fields simp_thms)
  subgoal using job_logs_cycle_forced [of l w] by blast
  subgoal using job_logs_cycle_live [of l w] by blast
  subgoal by (rule experiment_logs_drain_fields)
  subgoal
    using experiment_logs_tail [OF experiment_logs_cycle_tail [symmetric], of k v]
    by (simp only: experiment_logs_drain_fields simp_thms)
  subgoal using experiment_logs_cycle_forced [of k v] by blast
  subgoal using experiment_logs_cycle_live [of k v] by blast
  done

lemmas logs_cycle_defs =
  job_logs_cycle_def job_logs_drain_eq job_logs_check_def job_logs_quit_def
  experiment_logs_cycle_def experiment_logs_drain_eq experiment_logs_check_def
  experiment_logs_quit_def MAX_RETRIES_def CHECK_DELAY_def Let_def set_consumer_ws_def
  remove_sockets_def get_messages_fields drain_fields

lemmas example_defs =
  example_group_finished_def finished_db_def example_group_def example_world_def
  example_db_def idle_consumer_def job_live_def job_over_def exp_live_def exp_over_def
  mnist_def alice_def mallory_def

theorem logs_retry_counter_witness:
  "jl_num_message_retries example_job_logs_session = 7
   \<and> map_option jl_num_message_retries
        (outcome_session (job_logs_cycle example_job_logs_session example_group)) = Some 3
   \<and> consumer_ws (consumers
        (outcome_world (job_logs_cycle example_job_logs_session example_group)) 0) = [1, 2, 3]
   \<and> el_num_message_retries example_experiment_logs_session = 7
   \<and> map_option el_num_message_retries
        (outcome_session
           (experiment_logs_cycle example_experiment_logs_session example_group)) = Some 3
   \<and> consumer_ws (consumers
        (outcome_world
           (experiment_logs_cycle example_experiment_logs_session example_group)) 0) = [1, 2, 3]
   \<and> outcome_session (job_logs_cycle example_job_logs_session example_group_finished) = None
   \<and> consumer_ws (consumers
        (outcome_world (job_logs_cycle example_job_logs_session example_group_finished)) 0) = []
   \<and> outcome_session
        (experiment_logs_cycle example_experiment_logs_session example_group_finished) = None
   \<and> consumer_ws (consumers
        (outcome_world
           (experiment_logs_cycle example_experiment_logs_session example_group_finished)) 0) = []"
  using logs_retry_counter [of example_job_logs_session example_group
      example_experiment_logs_session example_group]
    logs_retry_counter [of example_job_logs_session example_group_finished
      example_experiment_logs_session example_group_finished]
  by (simp add: logs_cycle_defs example_job_logs_session_def example_experiment_logs_session_def
      example_defs)

subsection \<open>The last viewer of a log stream\<close>

lemma filter_singleton_away: "set cs \<subseteq> {c} \<Longrightarrow> filter (\<lambda>x. x \<noteq> c) cs = []"
  by (induction cs) auto

lemma job_logs_drain_members:
  "set (consumer_ws (consumers (snd (job_logs_drain l w)) (jl_consumer l)))
     \<subseteq> set (consumer_ws (consumers w (jl_consumer l)))"
  by (auto simp: job_logs_drain_eq get_messages_fields drain_members open_members_def)

lemma job_logs_check_fields:
  "jl_ws (fst (job_logs_check l w)) = jl_ws l"
  "jl_consumer (fst (job_logs_check l w)) = jl_consumer l"
  "jl_job_uuid (fst (job_logs_check l w)) = jl_job_uuid l"
  "connection_lost (snd (job_logs_check l w)) = connection_lost w"
  "job_logs_consumers (snd (job_logs_check l w)) = job_logs_consumers w"
  "monitored_job_logs (snd (job_logs_check l w)) = monitored_job_logs w"
  "consumer_running (consumers (snd (job_logs_check l w)) r) = consumer_running (consumers w r)"
  by (simp_all add: job_logs_check_def Let_def set_consumer_ws_def)

lemma job_logs_check_members:
  "set (consumer_ws (consumers (snd (job_logs_check l w)) (jl_consumer l)))
     \<subseteq> set (consumer_ws (consumers w (jl_consumer l)))"
  by (simp add: job_logs_check_def Let_def set_consumer_ws_def)

lemma job_logs_quit_last:
  assumes "jl_ws l \<in> connection_lost w"
    and "set (consumer_ws (consumers w (jl_consumer l))) \<subseteq> {jl_ws l}"
  shows "job_logs_quit l w = Return (outcome_world (job_logs_quit l w))"
    and "consumer_ws (consumers (outcome_world (job_logs_quit l w)) (jl_consumer l)) = []"
    and "monitored_job_logs (outcome_world (job_logs_quit l w)) =
           monitored_job_logs w - {jl_job_uuid l}"
    and "job_logs_consumers (outcome_world (job_logs_quit l w)) = job_logs_consumers w"
    and "consumer_running (consumers (outcome_world (job_logs_quit l w)) r) =
           consumer_running (consumers w r)"
  using assms
  by (simp_all add: job_logs_quit_def Let_def set_consumer_ws_def remove_sockets_def
      filter_singleton_away)

lemma job_logs_cycle_last:
  assumes "jl_ws l \<in> connection_lost w"
    and "set (consumer_ws (consumers w (jl_consumer l))) \<subseteq> {jl_ws l}"
  shows "job_logs_cycle l w = Return (outcome_world (job_logs_cycle l w))
    \<and> consumer_ws (consumers (outcome_world (job_logs_cycle l w)) (jl_consumer l)) = []
    \<and> monitored_job_logs (outcome_world (job_logs_cycle l w)) =
           monitored_job_logs w - {jl_job_uuid l}
    \<and> job_logs_consumers (outcome_world (job_logs_cycle l w)) = job_logs_consumers w
    \<and> consumer_running (consumers (outcome_world (job_logs_cycle l w)) r) =
           consumer_running (consumers w r)"
proof -
  define l1 w1 where "l1 = fst (job_logs_drain l w)" and "w1 = snd (job_logs_drain l w)"
  define l2 w2 where "l2 = fst (job_logs_check l1 w1)" and "w2 = snd (job_logs_check l1 w1)"
  have c: "job_logs_cycle l w = job_logs_quit l2 w2"
    by (simp add: job_logs_cycle_def l1_def w1_def l2_def w2_def split: prod.splits)
  have lost: "jl_ws l2 \<in> connection_lost w2"
    using assms(1)
    by (simp add: l2_def w2_def l1_def w1_def job_logs_check_fields job_logs_drain_fields)
  have cons: "jl_consumer l2 = jl_consumer l" and ws: "jl_ws l2 = jl_ws l"
    and uuid: "jl_job_uuid l2 = jl_job_uuid l"
    by (simp_all add: l2_def l1_def job_logs_check_fields job_logs_drain_fields)
  have "set (consumer_ws (consumers w2 (jl_consumer l1)))
          \<subseteq> set (consumer_ws (consumers w1 (jl_consumer l1)))"
    unfolding w2_def by (rule job_logs_check_members)
  moreover have "jl_consumer l1 = jl_consumer l"
    by (simp add: l1_def job_logs_drain_fields)
  moreover have "set (consumer_ws (consumers w1 (jl_consumer l)))
          \<subseteq> set (consumer_ws (consumers w (jl_consumer l)))"
    unfolding w1_def by (rule job_logs_drain_members)
  ultimately have mem: "set (consumer_ws (consumers w2 (jl_consumer l2))) \<subseteq> {jl_ws l2}"
    using assms(2) cons ws by auto
  show ?thesis
    using job_logs_quit_last [OF lost mem]
    by (simp add: c cons uuid w2_def w1_def job_logs_check_fields job_logs_drain_fields)
qed

lemma experiment_logs_drain_members:
  "set (consumer_ws (consumers (snd (experiment_logs_drain l w)) (el_consumer l)))
     \<subseteq> set (consumer_ws (consumers w (el_consumer l)))"
  by (auto simp: experiment_logs_drain_eq get_messages_fields drain_members open_members_def)

lemma experiment_logs_check_fields:
  "el_ws (fst (experiment_logs_check l w)) = el_ws l"
  "el_consumer (fst (experiment_logs_check l w)) = el_consumer l"
  "el_experiment_uuid (fst (experiment_logs_check l w)) = el_experiment_uuid l"
  "connection_lost (snd (experiment_logs_check l w)) = connection_lost w"
  "experiment_logs_consumers (snd (experiment_logs_check l w)) = experiment_logs_consumers w"
  "monitored_experiment_logs (snd (experiment_logs_check l w)) = monitored_experiment_logs w"
  "consumer_running (consumers (snd (experiment_logs_check l w)) r) = consumer_running (consumers w r)"
  by (simp_all add: experiment_logs_check_def Let_def set_consumer_ws_def)

lemma experiment_logs_check_members:
  "set (consumer_ws (consumers (snd (experiment_logs_check l w)) (el_consumer l)))
     \<subseteq> set (consumer_ws (consumers w (el_consumer l)))"
  by (simp add: experiment_logs_check_def Let_def set_consumer_ws_def)

lemma experiment_logs_quit_last:
  assumes "el_ws l \<in> connection_lost w"
    and "set (consumer_ws (consumers w (el_consumer l))) \<subseteq> {el_ws l}"
  shows "experiment_logs_quit l w = Return (outcome_world (experiment_logs_quit l w))"
    and "consumer_ws (consumers (outcome_world (experiment_logs_quit l w)) (el_consumer l)) = []"
    and "monitored_experiment_logs (outcome_world (experiment_logs_quit l w)) =
           monitored_experiment_logs w - {el_experiment_uuid l}"
    and "experiment_logs_consumers (outcome_world (experiment_logs_quit l w)) = experiment_logs_consumers w"
    and "consumer_running (consumers (outcome_world (experiment_logs_quit l w)) r) =
           consumer_running (consumers w r)"
  using assms
  by (simp_all add: experiment_logs_quit_def Let_def set_consumer_ws_def remove_sockets_def
      filter_singleton_away)

lemma experiment_logs_cycle_last:
  assumes "el_ws l \<in> connection_lost w"
    and "set (consumer_ws (consumers w (el_consumer l))) \<subseteq> {el_ws l}"
  shows "experiment_logs_cycle l w = Return (outcome_world (experiment_logs_cycle l w))
    \<and> consumer_ws (consumers (outcome_world (experiment_logs_cycle l w)) (el_consumer l)) = []
    \<and> monitored_experiment_logs (outcome_world (experiment_logs_cycle l w)) =
           monitored_experiment_logs w - {el_experiment_uuid l}
    \<and> experiment_logs_consumers (outcome_world (experiment_logs_cycle l w)) = experiment_logs_consumers w
    \<and> consumer_running (consumers (outcome_world (experiment_logs_cycle l w)) r) =
           consumer_running (consumers w r)"
proof -
  define l1 w1 where "l1 = fst (experiment_logs_drain l w)" and "w1 = snd (experiment_logs_drain l w)"
  define l2 w2 where "l2 = fst (experiment_logs_check l1 w1)" and "w2 = snd (experiment_logs_check l1 w1)"
  have c: "experiment_logs_cycle l w = experiment_logs_quit l2 w2"
    by (simp add: experiment_logs_cycle_def l1_def w1_def l2_def w2_def split: prod.splits)
  have lost: "el_ws l2 \<in> connection_lost w2"
    using assms(1)
    by (simp add: l2_def w2_def l1_def w1_def experiment_logs_check_fields experiment_logs_drain_fields)
  have cons: "el_consumer l2 = el_consumer l" and ws: "el_ws l2 = el_ws l"
    and uuid: "el_experiment_uuid l2 = el_experiment_uuid l"
    by (simp_all add: l2_def l1_def experiment_logs_check_fields experiment_logs_drain_fields)
  have "set (consumer_ws (consumers w2 (el_consumer l1)))
          \<subseteq> set (consumer_ws (consumers w1 (el_consumer l1)))"
    unfolding w2_def by (rule experiment_logs_check_members)
  moreover have "el_consumer l1 = el_consumer l"
    by (simp add: l1_def experiment_logs_drain_fields)
  moreover have "set (consumer_ws (consumers w1 (el_consumer l)))
          \<subseteq> set (consumer_ws (consumers w (el_consumer l)))"
    unfolding w1_def by (rule experiment_logs_drain_members)
  ultimately have mem: "set (consumer_ws (consumers w2 (el_consumer l2))) \<subseteq> {el_ws l2}"
    using assms(2) cons ws by auto
  show ?thesis
    using experiment_logs_quit_last [OF lost mem]
    by (simp add: c cons uuid w2_def w1_def experiment_logs_check_fields experiment_logs_drain_fields)
qed

text \<open>
  Claim C2, as amended. When the handler of a log endpoint finds its connection lost
  and no other viewer is in the group, the pass removes the connection, the group is
  empty, the monitoring flag of the key is dropped and the handler returns; the table
  \<open>job_logs_consumers\<close> (\<open>experiment_logs_consumers\<close>) keeps its entries and every
  consumer keeps the state of its subscription.
\<close>

theorem logs_last_viewer_keeps_entry:
  "(jl_ws l \<in> connection_lost w
      \<and> set (consumer_ws (consumers w (jl_consumer l))) \<subseteq> {jl_ws l}
    \<longrightarrow> job_logs_cycle l w = Return (outcome_world (job_logs_cycle l w))
      \<and> consumer_ws (consumers (outcome_world (job_logs_cycle l w)) (jl_consumer l)) = []
      \<and> monitored_job_logs (outcome_world (job_logs_cycle l w)) =
          monitored_job_logs w - {jl_job_uuid l}
      \<and> job_logs_consumers (outcome_world (job_logs_cycle l w)) = job_logs_consumers w
      \<and> consumer_running (consumers (outcome_world (job_logs_cycle l w)) r) =
          consumer_running (consumers w r))
   \<and>
   (el_ws k \<in> connection_lost v
      \<and> set (consumer_ws (consumers v (el_consumer k))) \<subseteq> {el_ws k}
    \<longrightarrow> experiment_logs_cycle k v = Return (outcome_world (experiment_logs_cycle k v))
      \<and> consumer_ws (consumers (outcome_world (experiment_logs_cycle k v)) (el_consumer k)) = []
      \<and> monitored_experiment_logs (outcome_world (experiment_logs_cycle k v)) =
          monitored_experiment_logs v - {el_experiment_uuid k}
      \<and> experiment_logs_consumers (outcome_world (experiment_logs_cycle k v)) =
          experiment_logs_consumers v
      \<and> consumer_running (consumers (outcome_world (experiment_logs_cycle k v)) r) =
          consumer_running (consumers v r))"
  using job_logs_cycle_last [of l w r] experiment_logs_cycle_last [of k v r] by blast

theorem logs_last_viewer_keeps_entry_witness:
  "jl_ws example_last_job_logs_session \<in> connection_lost example_last_viewer
   \<and> set (consumer_ws (consumers example_last_viewer (jl_consumer example_last_job_logs_session)))
       \<subseteq> {jl_ws example_last_job_logs_session}
   \<and> el_ws example_last_experiment_logs_session \<in> connection_lost example_last_viewer
   \<and> set (consumer_ws
         (consumers example_last_viewer (el_consumer example_last_experiment_logs_session)))
       \<subseteq> {el_ws example_last_experiment_logs_session}
   \<and> job_logs_consumers
        (outcome_world (job_logs_cycle example_last_job_logs_session example_last_viewer)) =
       [(''j1'', 0)]
   \<and> experiment_logs_consumers
        (outcome_world
           (experiment_logs_cycle example_last_experiment_logs_session example_last_viewer)) =
       [(''e1'', 1)]
   \<and> monitored_job_logs
        (outcome_world (job_logs_cycle example_last_job_logs_session example_last_viewer)) = {}"
  using logs_last_viewer_keeps_entry [of example_last_job_logs_session example_last_viewer 0
      example_last_experiment_logs_session example_last_viewer]
  by (simp add: example_last_job_logs_session_def example_last_experiment_logs_session_def
      example_last_viewer_def example_world_def idle_consumer_def)

text \<open>
  Claim C2 as the specification states it fails: the last viewer of the logs of job
  \<open>j1\<close> has gone, the group is empty, and after the pass the table still maps \<open>j1\<close>
  to the consumer, whose subscription is still running.
\<close>

theorem logs_release_counterexample:
  "consumer_ws (consumers
      (outcome_world (job_logs_cycle example_last_job_logs_session example_last_viewer)) 0) = []
   \<and> map_of (job_logs_consumers
        (outcome_world (job_logs_cycle example_last_job_logs_session example_last_viewer)))
        ''j1'' = Some 0
   \<and> consumer_running (consumers
        (outcome_world (job_logs_cycle example_last_job_logs_session example_last_viewer)) 0)"
  by (simp add: logs_cycle_defs example_last_job_logs_session_def example_last_viewer_def
      example_world_def idle_consumer_def example_db_def job_live_def)

subsection \<open>The counter of the resource handlers\<close>

lemma handle_job_disconnected_ws_fields:
  "sent (handle_job_disconnected_ws l c w) = sent w"
  "socket_managers (handle_job_disconnected_ws l c w) =
     (socket_managers w)(jr_ws_manager l := remove_sockets {c} (socket_managers w (jr_ws_manager l)))"
  by (simp_all add: handle_job_disconnected_ws_def Let_def set_manager_ws_def)

lemma job_resources_lost_fields:
  "sent (outcome_world (job_resources_lost l w)) = sent w"
  "(case job_resources_lost l w of Return w' \<Rightarrow> True | Sleep l' w' \<Rightarrow> l' = l)"
  by (simp_all add: job_resources_lost_def handle_job_disconnected_ws_fields)


lemma job_resources_send_sent:
  "sent (outcome_world (job_resources_send l (Some snapshot) w)) =
     sent w @ (if jr_ws l \<in> send_closed w then [] else [(jr_ws l, snapshot)])"
  by (simp add: job_resources_send_def job_resources_lost_def ws_send_def
      handle_job_disconnected_ws_fields)

lemma job_resources_send_closed:
  "jr_ws l \<in> send_closed w \<Longrightarrow>
   job_resources_send l (Some snapshot) w = Return (handle_job_disconnected_ws l (jr_ws l) w)"
  by (simp add: job_resources_send_def ws_send_def)



lemma job_resources_cycle_sent:
  assumes "latest_job_resources w (jr_job_uuid l) (jr_job_name l) = Some snapshot"
  shows "sent (outcome_world (job_resources_cycle l w)) =
     sent w @
       (if (jr_should_check l + 1 > 7 \<and> j_is_done (job_refresh (database w) (jr_job l)))
           \<or> jr_ws l \<in> send_closed w
        then [] else [(jr_ws l, snapshot)])"
  using assms
  by (simp add: job_resources_cycle_def Let_def RESOURCES_CHECK_def job_resources_send_sent
      handle_job_disconnected_ws_fields set_manager_ws_def)

lemma job_resources_cycle_send_failed:
  assumes "latest_job_resources w (jr_job_uuid l) (jr_job_name l) = Some snapshot"
    and "\<not> (jr_should_check l + 1 > 7 \<and> j_is_done (job_refresh (database w) (jr_job l)))"
    and "jr_ws l \<in> send_closed w"
  shows "job_resources_cycle l w = Return (outcome_world (job_resources_cycle l w))
    \<and> socket_managers (outcome_world (job_resources_cycle l w)) =
        (socket_managers w)
          (jr_ws_manager l := remove_sockets {jr_ws l} (socket_managers w (jr_ws_manager l)))"
  using assms
  by (auto simp: job_resources_cycle_def Let_def RESOURCES_CHECK_def job_resources_send_closed
      handle_job_disconnected_ws_fields)

lemma handle_experiment_disconnected_ws_fields:
  "sent (handle_experiment_disconnected_ws l c w) = sent w"
  "socket_managers (handle_experiment_disconnected_ws l c w) =
     (socket_managers w)(er_ws_manager l := remove_sockets {c} (socket_managers w (er_ws_manager l)))"
  by (simp_all add: handle_experiment_disconnected_ws_def Let_def set_manager_ws_def)

lemma experiment_resources_lost_fields:
  "sent (outcome_world (experiment_resources_lost l w)) = sent w"
  "(case experiment_resources_lost l w of Return w' \<Rightarrow> True | Sleep l' w' \<Rightarrow> l' = l)"
  by (simp_all add: experiment_resources_lost_def handle_experiment_disconnected_ws_fields)

lemma experiment_resources_send_counter:
  "(case experiment_resources_send l resources w of
      Return w' \<Rightarrow> True
    | Sleep l' w' \<Rightarrow> l' = l)"
  by (simp add: experiment_resources_send_def experiment_resources_lost_def ws_send_def split: option.splits)

lemma experiment_resources_send_sent:
  "sent (outcome_world (experiment_resources_send l (Some snapshot) w)) =
     sent w @ (if er_ws l \<in> send_closed w then [] else [(er_ws l, snapshot)])"
  by (simp add: experiment_resources_send_def experiment_resources_lost_def ws_send_def
      handle_experiment_disconnected_ws_fields)

lemma experiment_resources_send_closed:
  "er_ws l \<in> send_closed w \<Longrightarrow>
   experiment_resources_send l (Some snapshot) w = Return (handle_experiment_disconnected_ws l (er_ws l) w)"
  by (simp add: experiment_resources_send_def ws_send_def)



lemma experiment_resources_cycle_sent:
  assumes "latest_experiment_resources w (er_jobs l) = Some snapshot"
  shows "sent (outcome_world (experiment_resources_cycle l w)) =
     sent w @
       (if (er_should_check l + 1 > 7 \<and> e_is_done (experiment_refresh (database w) (er_experiment l)))
           \<or> er_ws l \<in> send_closed w
        then [] else [(er_ws l, snapshot)])"
  using assms
  by (simp add: experiment_resources_cycle_def get_latest_experiment_resources_def Let_def RESOURCES_CHECK_def experiment_resources_send_sent
      handle_experiment_disconnected_ws_fields set_manager_ws_def)

lemma experiment_resources_cycle_send_failed:
  assumes "latest_experiment_resources w (er_jobs l) = Some snapshot"
    and "\<not> (er_should_check l + 1 > 7 \<and> e_is_done (experiment_refresh (database w) (er_experiment l)))"
    and "er_ws l \<in> send_closed w"
  shows "experiment_resources_cycle l w = Return (outcome_world (experiment_resources_cycle l w))
    \<and> socket_managers (outcome_world (experiment_resources_cycle l w)) =
        (socket_managers w)
          (er_ws_manager l := remove_sockets {er_ws l} (socket_managers w (er_ws_manager l)))"
  using assms
  by (auto simp: experiment_resources_cycle_def get_latest_experiment_resources_def Let_def RESOURCES_CHECK_def experiment_resources_send_closed
      handle_experiment_disconnected_ws_fields)


lemmas resources_cycle_defs =
  job_resources_cycle_def job_resources_send_def job_resources_lost_def
  handle_job_disconnected_ws_def experiment_resources_cycle_def experiment_resources_send_def
  experiment_resources_lost_def handle_experiment_disconnected_ws_def
  get_latest_experiment_resources_def ws_send_def set_manager_ws_def remove_sockets_def
  RESOURCES_CHECK_def CHECK_DELAY_def Let_def

lemmas example_metrics_defs =
  example_metrics_finished_def example_metrics_def example_job_resources_session_def
  example_experiment_resources_session_def



subsection \<open>The delivery of a snapshot\<close>

text \<open>
  Claim C4, as amended. In a pass of \<open>job_resources\<close> or \<open>experiment_resources\<close>
  that fetches a snapshot, the only delivery is to the connection of the handler that
  fetched it, and there is none when the status check ends the handler first or when
  that connection is closed. When the send fails, the handler takes its own connection
  out of the group and returns; the other connections of the group stay.
\<close>

theorem resources_snapshot_to_own_connection:
  "(latest_job_resources w (jr_job_uuid l) (jr_job_name l) = Some snapshot
    \<longrightarrow> sent (outcome_world (job_resources_cycle l w)) =
          sent w @
            (if (jr_should_check l + 1 > 7 \<and> j_is_done (job_refresh (database w) (jr_job l)))
                \<or> jr_ws l \<in> send_closed w
             then [] else [(jr_ws l, snapshot)])
      \<and> (\<not> (jr_should_check l + 1 > 7 \<and> j_is_done (job_refresh (database w) (jr_job l)))
           \<and> jr_ws l \<in> send_closed w
          \<longrightarrow> job_resources_cycle l w = Return (outcome_world (job_resources_cycle l w))
            \<and> socket_managers (outcome_world (job_resources_cycle l w)) =
                (socket_managers w)
                  (jr_ws_manager l :=
                     remove_sockets {jr_ws l} (socket_managers w (jr_ws_manager l)))))
   \<and>
   (latest_experiment_resources v (er_jobs k) = Some snapshot
    \<longrightarrow> sent (outcome_world (experiment_resources_cycle k v)) =
          sent v @
            (if (er_should_check k + 1 > 7
                 \<and> e_is_done (experiment_refresh (database v) (er_experiment k)))
                \<or> er_ws k \<in> send_closed v
             then [] else [(er_ws k, snapshot)])
      \<and> (\<not> (er_should_check k + 1 > 7
              \<and> e_is_done (experiment_refresh (database v) (er_experiment k)))
           \<and> er_ws k \<in> send_closed v
          \<longrightarrow> experiment_resources_cycle k v =
                Return (outcome_world (experiment_resources_cycle k v))
            \<and> socket_managers (outcome_world (experiment_resources_cycle k v)) =
                (socket_managers v)
                  (er_ws_manager k :=
                     remove_sockets {er_ws k} (socket_managers v (er_ws_manager k)))))"
  using job_resources_cycle_sent [of w l snapshot]
    job_resources_cycle_send_failed [of w l snapshot]
    experiment_resources_cycle_sent [of v k snapshot]
    experiment_resources_cycle_send_failed [of v k snapshot]
  by blast

theorem resources_snapshot_to_own_connection_witness:
  "latest_job_resources example_metrics ''j1'' ''master.1'' = Some ''cpu=10''
   \<and> latest_experiment_resources example_metrics
        [(''j1'', ''master.1''), (''j2'', ''worker.2'')] = Some ''cpu=10''
   \<and> sent (outcome_world (job_resources_cycle example_job_resources_session example_metrics)) =
       [(1, ''cpu=10'')]
   \<and> sent (outcome_world
        (experiment_resources_cycle example_experiment_resources_session example_metrics)) =
       [(1, ''cpu=10'')]
   \<and> 1 \<in> send_closed (example_metrics\<lparr>send_closed := {1}\<rparr>)
   \<and> socket_managers
        (outcome_world
           (job_resources_cycle example_job_resources_session
              (example_metrics\<lparr>send_closed := {1}\<rparr>))) 0 = [2]
   \<and> socket_managers
        (outcome_world
           (experiment_resources_cycle example_experiment_resources_session
              (example_metrics\<lparr>send_closed := {1}\<rparr>))) 1 = [2]"
  using resources_snapshot_to_own_connection
      [of example_metrics example_job_resources_session "''cpu=10''"
        example_metrics example_experiment_resources_session]
    resources_snapshot_to_own_connection
      [of "example_metrics\<lparr>send_closed := {1}\<rparr>" example_job_resources_session "''cpu=10''"
        "example_metrics\<lparr>send_closed := {1}\<rparr>" example_experiment_resources_session]
  by (simp add: resources_cycle_defs example_metrics_defs example_defs)

text \<open>
  Claim C4 as the specification states it fails: viewers 1 and 2 are in the group of
  job \<open>j1\<close>, the handler of viewer 1 fetches a snapshot, and the pass delivers it to
  viewer 1 alone.
\<close>

theorem resources_fan_out_counterexample:
  "socket_managers example_metrics 0 = [1, 2]
   \<and> latest_job_resources example_metrics ''j1'' ''master.1'' = Some ''cpu=10''
   \<and> sent (outcome_world (job_resources_cycle example_job_resources_session example_metrics)) =
       [(1, ''cpu=10'')]
   \<and> (2, ''cpu=10'') \<notin>
       set (sent (outcome_world
                    (job_resources_cycle example_job_resources_session example_metrics)))"
  by (simp add: resources_cycle_defs example_metrics_defs example_defs)

subsection \<open>Targets that are not running\<close>

lemmas setup_defs =
  job_resources_setup_def experiment_resources_setup_def job_logs_setup_def
  experiment_logs_setup_def get_project_def get_running_experiment_def get_experiment_def
  get_job_def forbidden_unraised_def auditor_record_def new_socket_manager_def new_consumer_def
  consumer_run_def set_manager_ws_def set_consumer_ws_def add_socket_def format_name_def
  resolve_jobs_def Let_def

text \<open>
  Claim C8, as amended. A request for an experiment that exists and is not running, or
  for a job that exists and is not running in a running experiment, is rejected with
  the exception \<open>NotFound\<close>, the class of the rejection of an unknown job or
  experiment; only the message differs. The world is unchanged: no audit event, no
  entry in a table, no new object.
\<close>

theorem not_running_is_not_found:
  "(project_get (database w) project_name username = Some p
    \<and> experiment_get (database w) p experiment_id = Found e \<and> \<not> e_is_running e
    \<longrightarrow> job_resources_setup rq ws username project_name experiment_id job_id w =
          (Inl (NotFound ''Experiment was not running''), w)
      \<and> job_logs_setup rq ws username project_name experiment_id job_id w =
          (Inl (NotFound ''Experiment was not running''), w)
      \<and> experiment_resources_setup rq ws username project_name experiment_id w =
          (Inl (NotFound ''Experiment was not running''), w)
      \<and> experiment_logs_setup rq ws username project_name experiment_id w =
          (Inl (NotFound ''Experiment was not running''), w))
   \<and> (project_get (database w) project_name username = Some p
      \<and> experiment_get (database w) p experiment_id = Found e \<and> e_is_running e
      \<and> job_get (database w) e job_id = Found j \<and> \<not> j_is_running j
      \<longrightarrow> job_resources_setup rq ws username project_name experiment_id job_id w =
            (Inl (NotFound ''Job was not running''), w)
        \<and> job_logs_setup rq ws username project_name experiment_id job_id w =
            (Inl (NotFound ''Job was not running''), w))
   \<and> (project_get (database w) project_name username = Some p
      \<and> experiment_get (database w) p experiment_id = Found e \<and> e_is_running e
      \<and> job_get (database w) e job_id = DoesNotExist
      \<longrightarrow> job_resources_setup rq ws username project_name experiment_id job_id w =
            (Inl (NotFound ''Experiment was not found''), w)
        \<and> job_logs_setup rq ws username project_name experiment_id job_id w =
            (Inl (NotFound ''Experiment was not found''), w))
   \<and> (project_get (database w) project_name username = Some p
      \<and> experiment_get (database w) p experiment_id = DoesNotExist
      \<longrightarrow> experiment_resources_setup rq ws username project_name experiment_id w =
            (Inl (NotFound ''Experiment was not found''), w)
        \<and> experiment_logs_setup rq ws username project_name experiment_id w =
            (Inl (NotFound ''Experiment was not found''), w))"
  by (simp add: job_resources_setup_def experiment_resources_setup_def job_logs_setup_def
      experiment_logs_setup_def get_project_def get_running_experiment_def get_experiment_def
      get_job_def Let_def)

theorem not_running_is_not_found_witness:
  "project_get (database example_world) ''mnist'' ''alice'' = Some mnist
   \<and> experiment_get (database example_world) mnist ''2'' = Found exp_over
   \<and> \<not> e_is_running exp_over
   \<and> experiment_get (database example_world) mnist ''1'' = Found exp_live
   \<and> e_is_running exp_live
   \<and> job_get (database example_world) exp_live ''2'' = Found job_over
   \<and> \<not> j_is_running job_over
   \<and> job_get (database example_world) exp_live ''3'' = DoesNotExist
   \<and> experiment_get (database example_world) mnist ''3'' = DoesNotExist
   \<and> experiment_logs_setup \<lparr>request_user = alice\<rparr> 5 ''alice'' ''mnist'' ''2'' example_world =
       (Inl (NotFound ''Experiment was not running''), example_world)
   \<and> job_logs_setup \<lparr>request_user = alice\<rparr> 5 ''alice'' ''mnist'' ''1'' ''2'' example_world =
       (Inl (NotFound ''Job was not running''), example_world)
   \<and> job_logs_setup \<lparr>request_user = alice\<rparr> 5 ''alice'' ''mnist'' ''1'' ''3'' example_world =
       (Inl (NotFound ''Experiment was not found''), example_world)
   \<and> experiment_logs_setup \<lparr>request_user = alice\<rparr> 5 ''alice'' ''mnist'' ''3'' example_world =
       (Inl (NotFound ''Experiment was not found''), example_world)"
  using not_running_is_not_found [of example_world "''mnist''" "''alice''" mnist "''2''" exp_over
      "\<lparr>request_user = alice\<rparr>" 5 "''1''" job_over]
    not_running_is_not_found [of example_world "''mnist''" "''alice''" mnist "''1''" exp_live
      "\<lparr>request_user = alice\<rparr>" 5 "''2''" job_over]
    not_running_is_not_found [of example_world "''mnist''" "''alice''" mnist "''1''" exp_live
      "\<lparr>request_user = alice\<rparr>" 5 "''3''" job_over]
    not_running_is_not_found [of example_world "''mnist''" "''alice''" mnist "''3''" exp_live
      "\<lparr>request_user = alice\<rparr>" 5 "''3''" job_over]
  by (simp add: example_world_def example_db_def exp_over_def exp_live_def job_over_def)

text \<open>
  Claim C8 as the specification states it fails: the rejection of the finished job
  \<open>2\<close> and the rejection of the unknown job \<open>3\<close> are both the exception
  \<open>NotFound\<close>.
\<close>

theorem not_running_counterexample:
  "fst (job_logs_setup \<lparr>request_user = alice\<rparr> 5 ''alice'' ''mnist'' ''1'' ''2'' example_world) =
     Inl (NotFound ''Job was not running'')
   \<and> fst (job_logs_setup \<lparr>request_user = alice\<rparr> 5 ''alice'' ''mnist'' ''1'' ''3''
            example_world) =
       Inl (NotFound ''Experiment was not found'')
   \<and> is_NotFound (NotFound ''Job was not running'')
   \<and> is_NotFound (NotFound ''Experiment was not found'')"
  by (simp add: setup_defs example_world_def example_db_def idle_consumer_def job_live_def
      job_over_def exp_live_def exp_over_def mnist_def alice_def)

subsection \<open>The permission check\<close>

text \<open>
  Claim C1 fails on the code. User \<open>mallory\<close> has no \<open>GET\<close> permission on the
  project; each of the four handlers still records the audit event, finds or creates
  the entry of its table and adds the connection to the group.
\<close>

theorem forbidden_viewer_is_served:
  "\<not> has_project_permissions (database example_world) mallory mnist ''GET''
   \<and> (case job_resources_setup \<lparr>request_user = mallory\<rparr> 5 ''alice'' ''mnist'' ''1'' ''1''
             example_world of
        (Inl exn, w') \<Rightarrow> False
      | (Inr l, w') \<Rightarrow>
          audit w' = [\<lparr>audit_type = EXPERIMENT_JOB_RESOURCES_VIEWED, audit_instance = ''j1'',
                       audit_actor = 2\<rparr>]
          \<and> map_of (job_resources_ws_mangers w') ''j1'' = Some (jr_ws_manager l)
          \<and> socket_managers w' (jr_ws_manager l) = [5])
   \<and> (case experiment_resources_setup \<lparr>request_user = mallory\<rparr> 5 ''alice'' ''mnist'' ''1''
             example_world of
        (Inl exn, w') \<Rightarrow> False
      | (Inr l, w') \<Rightarrow>
          audit w' = [\<lparr>audit_type = EXPERIMENT_RESOURCES_VIEWED, audit_instance = ''e1'',
                       audit_actor = 2\<rparr>]
          \<and> map_of (experiment_resources_ws_mangers w') ''e1'' = Some (er_ws_manager l)
          \<and> socket_managers w' (er_ws_manager l) = [5])
   \<and> (case job_logs_setup \<lparr>request_user = mallory\<rparr> 5 ''alice'' ''mnist'' ''1'' ''1''
             example_world of
        (Inl exn, w') \<Rightarrow> False
      | (Inr l, w') \<Rightarrow>
          audit w' = [\<lparr>audit_type = EXPERIMENT_JOB_LOGS_VIEWED, audit_instance = ''j1'',
                       audit_actor = 2\<rparr>]
          \<and> map_of (job_logs_consumers w') ''j1'' = Some (jl_consumer l)
          \<and> consumer_ws (consumers w' (jl_consumer l)) = [5])
   \<and> (case experiment_logs_setup \<lparr>request_user = mallory\<rparr> 5 ''alice'' ''mnist'' ''1''
             example_world of
        (Inl exn, w') \<Rightarrow> False
      | (Inr l, w') \<Rightarrow>
          audit w' = [\<lparr>audit_type = EXPERIMENT_LOGS_VIEWED, audit_instance = ''e1'',
                       audit_actor = 2\<rparr>]
          \<and> map_of (experiment_logs_consumers w') ''e1'' = Some (el_consumer l)
          \<and> consumer_ws (consumers w' (el_consumer l)) = [5])"
  by (simp add: setup_defs example_world_def example_db_def idle_consumer_def job_live_def
      job_over_def exp_live_def exp_over_def mnist_def alice_def mallory_def str_nat.simps)

subsection \<open>The shutdown\<close>

lemma stop_job_logs_consumers_keeps:
  "experiment_resources_ws_mangers (stop_job_logs_consumers ks w) =
     experiment_resources_ws_mangers w"
  by (induction ks arbitrary: w) (auto simp: consumer_stop_def split: option.splits)

lemma stop_experiment_logs_consumers_keeps:
  "experiment_resources_ws_mangers (stop_experiment_logs_consumers ks w) =
     experiment_resources_ws_mangers w"
  by (induction ks arbitrary: w) (auto simp: consumer_stop_def split: option.splits)

lemma notify_server_stopped_keeps:
  "experiment_resources_ws_mangers (notify_server_stopped w) = experiment_resources_ws_mangers w"
  by (simp add: notify_server_stopped_def Let_def stop_job_logs_consumers_keeps
      stop_experiment_logs_consumers_keeps)

text \<open>
  Claim C9 fails on the code. With an entry in each of the four tables,
  \<open>notify_server_stopped\<close> empties three of them and stops the two consumers; the table
  \<open>experiment_resources_ws_mangers\<close> keeps its entry, and the empty dictionary goes to
  the attribute \<open>experiment_resources_ws_manger\<close>.
\<close>

theorem server_stop_keeps_experiment_resources:
  "experiment_resources_ws_mangers example_busy = [(''e1'', 3)]
   \<and> experiment_resources_ws_mangers (notify_server_stopped example_busy) = [(''e1'', 3)]
   \<and> experiment_resources_ws_manger (notify_server_stopped example_busy) = []
   \<and> job_resources_ws_mangers (notify_server_stopped example_busy) = []
   \<and> job_logs_consumers (notify_server_stopped example_busy) = []
   \<and> experiment_logs_consumers (notify_server_stopped example_busy) = []
   \<and> \<not> consumer_running (consumers (notify_server_stopped example_busy) 0)
   \<and> \<not> consumer_running (consumers (notify_server_stopped example_busy) 1)"
  by (simp add: notify_server_stopped_def Let_def consumer_stop_def example_busy_def
      example_last_viewer_def example_world_def idle_consumer_def)

subsection \<open>The jobs of an experiment\<close>

lemma handle_experiment_disconnected_ws_fetches:
  "experiment_fetches (handle_experiment_disconnected_ws l c w) = experiment_fetches w"
  by (simp add: handle_experiment_disconnected_ws_def Let_def set_manager_ws_def)

lemma experiment_resources_send_fetches:
  "experiment_fetches (outcome_world (experiment_resources_send l resources w)) =
     experiment_fetches w"
  by (simp add: experiment_resources_send_def experiment_resources_lost_def ws_send_def
      handle_experiment_disconnected_ws_fetches split: option.splits)

lemma experiment_resources_send_jobs:
  "(case experiment_resources_send l resources w of
      Return w' \<Rightarrow> True
    | Sleep l' w' \<Rightarrow> er_jobs l' = er_jobs l)"
  using experiment_resources_send_counter [of l resources w] by (auto split: outcome.splits)

lemma experiment_resources_cycle_fetches:
  "experiment_fetches (outcome_world (experiment_resources_cycle l w)) =
     experiment_fetches w @ [er_jobs l]"
  by (simp add: experiment_resources_cycle_def get_latest_experiment_resources_def Let_def
      experiment_resources_send_fetches handle_experiment_disconnected_ws_fetches
      set_manager_ws_def)

lemma experiment_resources_cycle_jobs:
  "experiment_resources_cycle l w = Sleep l' w' \<Longrightarrow> er_jobs l' = er_jobs l"
proof -
  assume a: "experiment_resources_cycle l w = Sleep l' w'"
  have *: "(case experiment_resources_send l0 res w0 of
      Return w' \<Rightarrow> True | Sleep l' w' \<Rightarrow> er_jobs l' = er_jobs l0)" for l0 res w0
    by (rule experiment_resources_send_jobs)
  show ?thesis
    using a
      * [of "l\<lparr>er_should_check := er_should_check l + 1\<rparr>"
          "latest_experiment_resources w (er_jobs l)"
          "snd (get_latest_experiment_resources (er_jobs l) w)"]
      * [of "l\<lparr>er_experiment := experiment_refresh (database w) (er_experiment l),
               er_should_check := er_should_check l + 1 - CHECK_DELAY\<rparr>"
          "latest_experiment_resources w (er_jobs l)"
          "snd (get_latest_experiment_resources (er_jobs l) w)"]
    by (auto simp: experiment_resources_cycle_def get_latest_experiment_resources_def Let_def
        split: if_splits)
qed

lemma apply_env_fetches: "experiment_fetches (apply_env env w) = experiment_fetches w"
  by (simp add: apply_env_def)

lemma experiment_resources_loop_fetches:
  "\<exists>n. 1 \<le> n \<and> n \<le> Suc (length envs)
     \<and> experiment_fetches (outcome_world (experiment_resources_loop l envs w)) =
         experiment_fetches w @ replicate n (er_jobs l)"
proof (induction envs arbitrary: l w)
  case Nil
  have "experiment_fetches (outcome_world (experiment_resources_loop l [] w)) =
          experiment_fetches w @ replicate 1 (er_jobs l)"
    by (simp add: experiment_resources_cycle_fetches)
  then show ?case by (intro exI [of _ 1]) simp
next
  case (Cons env envs)
  show ?case
  proof (cases "experiment_resources_cycle l w")
    case (Return w')
    then have "experiment_fetches (outcome_world (experiment_resources_loop l (env # envs) w)) =
          experiment_fetches w @ replicate 1 (er_jobs l)"
      using experiment_resources_cycle_fetches [of l w] by simp
    then show ?thesis by (intro exI [of _ 1]) simp
  next
    case (Sleep l' w')
    have j: "er_jobs l' = er_jobs l"
      using experiment_resources_cycle_jobs [OF Sleep] .
    have f: "experiment_fetches w' = experiment_fetches w @ [er_jobs l]"
      using experiment_resources_cycle_fetches [of l w] Sleep by simp
    obtain n where n: "1 \<le> n" "n \<le> Suc (length envs)"
      "experiment_fetches (outcome_world (experiment_resources_loop l' envs (apply_env env w'))) =
         experiment_fetches (apply_env env w') @ replicate n (er_jobs l')"
      using Cons.IH [of l' "apply_env env w'"] by blast
    have "experiment_fetches (outcome_world (experiment_resources_loop l (env # envs) w)) =
          experiment_fetches w @ replicate (Suc n) (er_jobs l)"
      using Sleep n(3) by (simp add: apply_env_fetches f j)
    then show ?thesis using n(1,2) by (intro exI [of _ "Suc n"]) simp
  qed
qed

lemma experiment_resources_setup_jobs:
  assumes "experiment_resources_setup rq ws username project_name experiment_id w = (Inr l, w1)"
  shows "er_jobs l = resolve_jobs (database w) (er_experiment l)"
    and "experiment_fetches w1 = experiment_fetches w"
    and "er_should_check l = 0"
  using assms
  by (auto simp: experiment_resources_setup_def Let_def auditor_record_def
      new_socket_manager_def set_manager_ws_def
      split: sum.splits option.splits if_splits prod.splits)

text \<open>
  Claim C10. The list of jobs that \<open>experiment_resources\<close> queries is the one resolved
  from the database at setup. However the database, the cache and the transports change
  during the sleeps, every pass of the loop calls
  \<open>get_latest_experiment_resources\<close> with that list: the calls of a run of the
  handler are one or more copies of it, at most one per pass.
\<close>

theorem experiment_resources_jobs_resolved_once:
  assumes "experiment_resources_setup rq ws username project_name experiment_id w = (Inr l, w1)"
  shows "er_jobs l = resolve_jobs (database w) (er_experiment l)
    \<and> (\<exists>n. 1 \<le> n \<and> n \<le> Suc (length envs)
          \<and> experiment_fetches
               (snd (experiment_resources rq ws username project_name experiment_id envs w)) =
              experiment_fetches w @ replicate n (resolve_jobs (database w) (er_experiment l)))"
proof -
  have j: "er_jobs l = resolve_jobs (database w) (er_experiment l)"
    and f: "experiment_fetches w1 = experiment_fetches w"
    using experiment_resources_setup_jobs [OF assms] by simp_all
  obtain n where "1 \<le> n" "n \<le> Suc (length envs)"
    "experiment_fetches (outcome_world (experiment_resources_loop l envs w1)) =
       experiment_fetches w1 @ replicate n (er_jobs l)"
    using experiment_resources_loop_fetches [of envs l w1] by blast
  then have "1 \<le> n \<and> n \<le> Suc (length envs)
      \<and> experiment_fetches
           (snd (experiment_resources rq ws username project_name experiment_id envs w)) =
          experiment_fetches w @ replicate n (resolve_jobs (database w) (er_experiment l))"
    using assms by (simp add: experiment_resources_def f j)
  then show ?thesis using j by blast
qed

theorem experiment_resources_jobs_resolved_once_witness:
  "resolve_jobs (env_database example_jobs_gone) exp_live = []
   \<and> experiment_fetches
        (snd (experiment_resources \<lparr>request_user = alice\<rparr> 5 ''alice'' ''mnist'' ''1''
                [example_jobs_gone, example_jobs_gone] example_world)) =
       [ [(''j1'', ''master.1''), (''j2'', ''worker.2'')],
         [(''j1'', ''master.1''), (''j2'', ''worker.2'')],
         [(''j1'', ''master.1''), (''j2'', ''worker.2'')] ]"
proof -
  obtain l w1 where s:
    "experiment_resources_setup \<lparr>request_user = alice\<rparr> 5 ''alice'' ''mnist'' ''1'' example_world =
       (Inr l, w1)"
    by (simp add: setup_defs example_defs)
  show ?thesis
    using experiment_resources_jobs_resolved_once
      [OF s, of "[example_jobs_gone, example_jobs_gone]"]
    by (simp add: experiment_resources_def setup_defs resources_cycle_defs apply_env_def
        example_jobs_gone_def example_defs str_nat.simps)
qed

subsection \<open>One instance per key\<close>








lemma unchanged_refl: "unchanged w w"
  by (simp add: unchanged_def)















lemma outcome_world_wrap [simp]: "outcome_world (wrap_outcome f X) = outcome_world X"
  by (cases X) simp_all



declare map_of_eq_Some_iff [simp del]



















































end
